theory Spec2Isabelle
  imports Complex_Main
begin

section \<open>Numbers, arrays and the store\<close>

text \<open>
  The parameter vector of \<^verbatim>\<open>citk/model.py\<close> is a one-dimensional NumPy array of
  floats. Its entries and the regularization coefficient are idealised as reals. The
  values a loss or an optimizer hands back are Python floats, which the code itself
  compares with \<^verbatim>\<open>np.inf\<close> and \<^verbatim>\<open>-np.inf\<close>, so they keep the non-finite
  values: \<open>pyfloat\<close> is a real, an infinity or NaN, with the IEEE rules for the
  non-finite cases and exact arithmetic on the finite ones.
\<close>

type_synonym vec = "real list"
type_synonym addr = nat
type_synonym shape = "nat list"

datatype error =
    IncompatibleShapeError
  | DuplicateIdentifierError
  | UnknownIdentifierError
  | OptimizerError
  | NoneVectorError
  | ScalarIndexError
  | EmptyIndexError

datatype pyfloat = NaN | NInf | Fin real | PInf

text \<open>\<^verbatim>\<open>a < b\<close> on floats: every comparison with NaN is false.\<close>

fun lt :: "pyfloat \<Rightarrow> pyfloat \<Rightarrow> bool" where
  "lt NaN b = False"
| "lt a NaN = False"
| "lt (Fin a) (Fin b) = (a < b)"
| "lt a NInf = False"
| "lt NInf b = True"
| "lt PInf b = False"
| "lt (Fin a) PInf = True"

text \<open>\<^verbatim>\<open>a > b\<close> on floats.\<close>

definition gt :: "pyfloat \<Rightarrow> pyfloat \<Rightarrow> bool" where
  "gt a b = lt b a"

fun padd :: "pyfloat \<Rightarrow> pyfloat \<Rightarrow> pyfloat" where
  "padd NaN b = NaN"
| "padd a NaN = NaN"
| "padd (Fin a) (Fin b) = Fin (a + b)"
| "padd PInf NInf = NaN"
| "padd NInf PInf = NaN"
| "padd PInf b = PInf"
| "padd a PInf = PInf"
| "padd NInf b = NInf"
| "padd a NInf = NInf"

text \<open>Division of a float by a positive count, as \<^verbatim>\<open>np.mean\<close> does after summing.\<close>

fun pdiv :: "pyfloat \<Rightarrow> nat \<Rightarrow> pyfloat" where
  "pdiv (Fin a) n = Fin (a / real n)"
| "pdiv a n = a"

text \<open>
  \<^verbatim>\<open>np.mean(xs)\<close> of a Python list of floats. The mean of the empty list is NaN
  (NumPy warns and does not raise).
\<close>

definition mean :: "pyfloat list \<Rightarrow> pyfloat" where
  "mean xs = (if xs = [] then NaN else pdiv (foldl padd (Fin 0) xs) (length xs))"

text \<open>
  What a loss function returns: a bare scalar (a Python float or a NumPy scalar) or a
  one-dimensional array. The constructor \<^verbatim>\<open>FFN.__init__\<close> annotates the loss as
  \<^verbatim>\<open>Callable[..., np.ndarray]\<close>. Arrays of higher rank are not modelled.
\<close>

datatype lossval = Scalar pyfloat | Array "pyfloat list"

text \<open>\<^verbatim>\<open>v + r\<close> for a float \<open>r\<close>, broadcast over an array.\<close>

fun add_real :: "lossval \<Rightarrow> real \<Rightarrow> lossval" where
  "add_real (Scalar x) r = Scalar (padd x (Fin r))"
| "add_real (Array xs) r = Array (map (\<lambda>x. padd x (Fin r)) xs)"

text \<open>
  \<^verbatim>\<open>v[0]\<close>: a scalar cannot be indexed (TypeError on a Python float, IndexError on a
  NumPy scalar), and an empty array has no element 0.
\<close>

fun index0 :: "lossval \<Rightarrow> error + pyfloat" where
  "index0 (Scalar x) = Inl ScalarIndexError"
| "index0 (Array []) = Inl EmptyIndexError"
| "index0 (Array (x # xs)) = Inr x"

text \<open>
  \<^verbatim>\<open>np.linalg.norm(x, ord)\<close> of a one-dimensional array for \<open>ord \<ge> 1\<close>: the
  \<open>ord\<close>-th root of the sum of the \<open>ord\<close>-th powers of the absolute values.
\<close>

definition linalg_norm :: "vec \<Rightarrow> nat \<Rightarrow> real" where
  "linalg_norm x ord = root ord (\<Sum>w\<leftarrow>x. \<bar>w\<bar> ^ ord)"

text \<open>
  NumPy arrays are mutable objects. A parameter vector is held by reference: the store
  maps an address to the array's contents, and \<open>fresh\<close> is the next address never
  handed out. \<^verbatim>\<open>None\<close> is the reference \<open>None\<close>.
\<close>

record heap =
  cells :: "addr \<Rightarrow> vec"
  fresh :: addr

definition alloc :: "heap \<Rightarrow> vec \<Rightarrow> heap \<times> addr" where
  "alloc h v = (h\<lparr>cells := (cells h)(fresh h := v), fresh := Suc (fresh h)\<rparr>, fresh h)"

definition deref :: "heap \<Rightarrow> addr option \<Rightarrow> vec option" where
  "deref h r = (case r of None \<Rightarrow> None | Some a \<Rightarrow> Some (cells h a))"

text \<open>\<^verbatim>\<open>copy.deepcopy\<close> of a reference: a new array with the same contents; \<^verbatim>\<open>None\<close> stays \<^verbatim>\<open>None\<close>.\<close>

definition deepcopy :: "heap \<Rightarrow> addr option \<Rightarrow> heap \<times> addr option" where
  "deepcopy h r =
     (case r of
        None \<Rightarrow> (h, None)
      | Some a \<Rightarrow> (case alloc h (cells h a) of (h', b) \<Rightarrow> (h', Some b)))"

section \<open>Collaborators\<close>

text \<open>
  Modelled from the spec: the class \<^verbatim>\<open>WeightsParser\<close> of \<^verbatim>\<open>citk/layer.py\<close>, which
  is not among the sources. It maps a layer identifier to a descriptor (start offset,
  shape) inside the flat vector; \<open>cursor\<close> is the current end offset. \<open>add_weights\<close>
  appends a descriptor at the cursor, advances the cursor by the element count of the
  shape and rejects an identifier that is already present; \<open>get\<close> returns the
  sub-range at the stored offset and rejects an unknown identifier. Only the
  one-dimensional shapes \<^verbatim>\<open>(N,)\<close> that \<^verbatim>\<open>FFN\<close> registers occur, so the reshaped
  sub-range is the sub-range. Slicing \<^verbatim>\<open>None\<close> raises.
\<close>

record parser =
  descriptors :: "(string \<times> nat \<times> shape) list"
  cursor :: nat

definition WeightsParser :: parser where
  "WeightsParser = \<lparr>descriptors = [], cursor = 0\<rparr>"

definition add_weights :: "parser \<Rightarrow> string \<Rightarrow> shape \<Rightarrow> error + parser" where
  "add_weights p ident shp =
     (if ident \<in> fst ` set (descriptors p) then Inl DuplicateIdentifierError
      else Inr \<lparr>descriptors = descriptors p @ [(ident, cursor p, shp)],
                cursor = cursor p + prod_list shp\<rparr>)"

definition get :: "parser \<Rightarrow> vec option \<Rightarrow> string \<Rightarrow> error + vec" where
  "get p vect ident =
     (case map_of (descriptors p) ident of
        None \<Rightarrow> Inl UnknownIdentifierError
      | Some (start, shp) \<Rightarrow>
          (case vect of
             None \<Rightarrow> Inl NoneVectorError
           | Some v \<Rightarrow> Inr (take (prod_list shp) (drop start v))))"

text \<open>The sum of the element counts of all registered descriptors.\<close>

definition registered_size :: "parser \<Rightarrow> nat" where
  "registered_size p = (\<Sum>d\<leftarrow>descriptors p. prod_list (snd (snd d)))"

text \<open>
  A layer (\<^verbatim>\<open>BaseLayer\<close> and its variants, also in \<^verbatim>\<open>citk/layer.py\<close>) is taken as
  a parameter: its position \<open>number\<close>, which the network assigns, and its methods.
  \<open>str_of\<close> is \<^verbatim>\<open>__str__\<close>, the identifier as a function of the position;
  \<open>build_weights_dict\<close> may reject the input shape; \<open>initializer n\<close> is
  \<^verbatim>\<open>initializer(size=(n,))\<close> under a fixed seed; \<open>forward\<close> is pure.
\<close>

record 'a layer =
  number :: nat
  str_of :: "nat \<Rightarrow> string"
  build_weights_dict :: "shape \<Rightarrow> error + (nat \<times> shape)"
  initializer :: "nat \<Rightarrow> vec"
  forward :: "'a \<Rightarrow> vec \<Rightarrow> 'a"

definition str :: "'a layer \<Rightarrow> string" where
  "str l = str_of l (number l)"

text \<open>
  The bound method \<^verbatim>\<open>self.loss\<close> as the optimizer receives it, and the optimizer's
  \<^verbatim>\<open>apply(loss, X, y, W_vect, verbose)\<close> (\<^verbatim>\<open>citk/optimisers.py\<close>, a parameter). The
  optimizer is an object with a state of its own (\<open>'o\<close>); it works on the store, so it
  may update the array it is given in place or allocate a new one, and it may raise. It
  returns \<^verbatim>\<open>(to_stop, inst, tr_loss)\<close>.
\<close>

type_synonym 'a loss_fn = "vec option \<Rightarrow> 'a \<Rightarrow> 'a \<Rightarrow> bool \<Rightarrow> error + lossval"

type_synonym ('a, 'o) optimizer =
  "'o \<Rightarrow> heap \<Rightarrow> 'a loss_fn \<Rightarrow> 'a \<Rightarrow> 'a \<Rightarrow> addr option \<Rightarrow> bool
     \<Rightarrow> error + ((bool \<times> addr \<times> pyfloat) \<times> 'o \<times> heap)"

section \<open>The network\<close>

text \<open>
  The fields of an \<^verbatim>\<open>FFN\<close> object. Names cannot start with an underscore:
  \<open>loss'\<close> is \<^verbatim>\<open>_loss\<close> and \<open>optimiser'\<close> is \<^verbatim>\<open>_optimiser\<close>, an attribute that
  does not exist (\<open>None\<close>) until \<^verbatim>\<open>fit\<close> creates it.
\<close>

record ('a, 'o) FFN =
  parser :: parser
  regularization :: string
  reg_coef :: real
  layer_specs :: "'a layer list"
  loss' :: "'a \<Rightarrow> 'a \<Rightarrow> lossval"
  W_vect :: "addr option"
  optimiser' :: "('a, 'o) optimizer option"

text \<open>The keyword arguments \<^verbatim>\<open>**kwargs\<close> that \<^verbatim>\<open>__init__\<close> reads with \<^verbatim>\<open>kwargs.get\<close>.\<close>

record kwargs =
  kw_regularization :: "string option"
  kw_reg_coef :: "real option"

text \<open>
  The loop of \<^verbatim>\<open>__init__\<close> (lines 35 to 39): number the layer, ask it for its
  parameter count, register the count, append the initial values.
\<close>

fun build_layers ::
  "parser \<Rightarrow> shape \<Rightarrow> vec \<Rightarrow> nat \<Rightarrow> 'a layer list
     \<Rightarrow> error + (parser \<times> shape \<times> vec \<times> 'a layer list)" where
  "build_layers p cur_shape W num [] = Inr (p, cur_shape, W, [])"
| "build_layers p cur_shape W num (layer # rest) =
     (let layer = layer\<lparr>number := num\<rparr> in
      case build_weights_dict layer cur_shape of
        Inl e \<Rightarrow> Inl e
      | Inr (N_weights, cur_shape') \<Rightarrow>
          (case add_weights p (str layer) [N_weights] of
             Inl e \<Rightarrow> Inl e
           | Inr p' \<Rightarrow>
               (case build_layers p' cur_shape' (W @ initializer layer N_weights) (Suc num) rest of
                  Inl e \<Rightarrow> Inl e
                | Inr (p'', s, W', rest') \<Rightarrow> Inr (p'', s, W', layer # rest'))))"

text \<open>\<^verbatim>\<open>FFN.__init__\<close> (lines 29 to 41). The scaled vector \<^verbatim>\<open>0.1 * W_vect\<close> is a new array.\<close>

definition FFN_init ::
  "heap \<Rightarrow> shape \<Rightarrow> 'a layer list \<Rightarrow> ('a \<Rightarrow> 'a \<Rightarrow> lossval) \<Rightarrow> kwargs
     \<Rightarrow> error + (('a, 'o) FFN \<times> heap)" where
  "FFN_init h input_shape specs loss_f kw =
     (case build_layers WeightsParser input_shape [] 0 specs of
        Inl e \<Rightarrow> Inl e
      | Inr (p, s, W, specs') \<Rightarrow>
          (case alloc h (map (\<lambda>w. 0.1 * w) W) of
             (h', a) \<Rightarrow>
               Inr (\<lparr>parser = p,
                     regularization = (case kw_regularization kw of None \<Rightarrow> ''l2'' | Some r \<Rightarrow> r),
                     reg_coef = (case kw_reg_coef kw of None \<Rightarrow> 0 | Some c \<Rightarrow> c),
                     layer_specs = specs',
                     loss' = loss_f,
                     W_vect = Some a,
                     optimiser' = None\<rparr>, h')))"

text \<open>\<^verbatim>\<open>FFN._predict\<close> (lines 57 to 62), written \<open>predict'\<close>.\<close>

fun predict_layers :: "parser \<Rightarrow> vec option \<Rightarrow> 'a layer list \<Rightarrow> 'a \<Rightarrow> error + 'a" where
  "predict_layers p W [] cur_units = Inr cur_units"
| "predict_layers p W (layer # rest) cur_units =
     (case get p W (str layer) of
        Inl e \<Rightarrow> Inl e
      | Inr cur_weights \<Rightarrow> predict_layers p W rest (forward layer cur_units cur_weights))"

definition predict' :: "('a, 'o) FFN \<Rightarrow> vec option \<Rightarrow> 'a \<Rightarrow> error + 'a" where
  "predict' self W inputs = predict_layers (parser self) W (layer_specs self) inputs"

text \<open>
  The regularization term of \<^verbatim>\<open>FFN.loss\<close> (lines 46 to 51). The norm of \<^verbatim>\<open>None\<close>
  raises; the last branch does not look at the vector.
\<close>

definition reg_term :: "('a, 'o) FFN \<Rightarrow> vec option \<Rightarrow> bool \<Rightarrow> error + real" where
  "reg_term self W omit_reg =
     (if regularization self = ''l2'' \<and> \<not> omit_reg then
        (case W of None \<Rightarrow> Inl NoneVectorError | Some w \<Rightarrow> Inr ((linalg_norm w 2) ^ 2))
      else if regularization self = ''l1'' \<and> \<not> omit_reg then
        (case W of None \<Rightarrow> Inl NoneVectorError | Some w \<Rightarrow> Inr (linalg_norm w 1))
      else Inr 0)"

text \<open>\<^verbatim>\<open>FFN.loss\<close> (lines 43 to 52).\<close>

definition loss :: "('a, 'o) FFN \<Rightarrow> vec option \<Rightarrow> 'a \<Rightarrow> 'a \<Rightarrow> bool \<Rightarrow> error + lossval" where
  "loss self W X y omit_reg =
     (case reg_term self W omit_reg of
        Inl e \<Rightarrow> Inl e
      | Inr reg \<Rightarrow>
          (case predict' self W X of
             Inl e \<Rightarrow> Inl e
           | Inr p \<Rightarrow> Inr (add_real (loss' self p y) (reg_coef self * reg))))"

text \<open>\<^verbatim>\<open>FFN.predict\<close> (lines 54 to 55).\<close>

definition predict :: "('a, 'o) FFN \<Rightarrow> heap \<Rightarrow> 'a \<Rightarrow> error + 'a" where
  "predict self h inputs = predict' self (deref h (W_vect self)) inputs"

text \<open>\<^verbatim>\<open>FFN.eval\<close> (lines 64 to 65), written \<open>eval_ffn\<close>.\<close>

definition eval_ffn :: "('a, 'o) FFN \<Rightarrow> heap \<Rightarrow> 'a \<Rightarrow> 'a \<Rightarrow> error + lossval" where
  "eval_ffn self h input output = loss self (deref h (W_vect self)) input output True"

section \<open>Training\<close>

text \<open>
  The arguments of \<^verbatim>\<open>fit\<close>. \<open>epochs\<close> and \<open>verbose\<close> are optional
  (\<^verbatim>\<open>None\<close> by default). The samples are pairs (inputs, targets).
\<close>

record ('a, 'o) fit_args =
  optimiser :: "('a, 'o) optimizer"
  train_sample :: "'a \<times> 'a"
  validation_sample :: "'a \<times> 'a"
  batch_size :: int
  epochs :: "int option"
  verbose :: "bool option"
  load_best_model_on_end :: bool
  minimize_metric :: bool

record history =
  epoch :: "int list"
  train_loss :: "pyfloat list"
  validation_loss :: "pyfloat list"

text \<open>
  The state the epoch loop works on: the network object, the optimizer's own state, the
  store, and the locals \<^verbatim>\<open>best_inst\<close>, \<^verbatim>\<open>best_score\<close>, \<^verbatim>\<open>best_epoch\<close> and
  \<^verbatim>\<open>history\<close>. The local \<^verbatim>\<open>inst\<close> is only read right after it is assigned and
  is not kept.
\<close>

record ('a, 'o) fit_state =
  self :: "('a, 'o) FFN"
  ostate :: 'o
  hp :: heap
  best_inst :: "addr option"
  best_score :: pyfloat
  best_epoch :: int
  history :: history

text \<open>
  \<^verbatim>\<open>gen_batch\<close> (\<^verbatim>\<open>citk/utils.py\<close>) is a parameter: the finite sequence of batches
  it yields for a sample and a batch size.
\<close>

type_synonym 'a batcher = "'a \<times> 'a \<Rightarrow> int \<Rightarrow> ('a \<times> 'a) list"

text \<open>
  The batch loop (lines 101 to 106) over the batches still to come. The state is the
  network, the optimizer state, the store, \<^verbatim>\<open>to_stop\<close> and \<^verbatim>\<open>tr_accum_loss\<close>.
  \<^verbatim>\<open>self._optimiser\<close> is the object stored on line 83.
\<close>

fun batch_loop ::
  "('a, 'o) optimizer \<Rightarrow> bool \<Rightarrow> ('a \<times> 'a) list
     \<Rightarrow> ('a, 'o) FFN \<times> 'o \<times> heap \<times> bool \<times> pyfloat list
     \<Rightarrow> error + (('a, 'o) FFN \<times> 'o \<times> heap \<times> bool \<times> pyfloat list)" where
  "batch_loop opt v [] st = Inr st"
| "batch_loop opt v ((X, y) # rest) (net, os, h, to_stop, tr_accum_loss) =
     (case opt os h (loss net) X y (W_vect net) v of
        Inl e \<Rightarrow> Inl e
      | Inr ((to_stop', inst, tr_loss), os', h') \<Rightarrow>
          batch_loop opt v rest
            (net\<lparr>W_vect := Some inst\<rparr>, os', h', to_stop', tr_accum_loss @ [tr_loss]))"

text \<open>Lines 116 to 125: the snapshot after the validation loss of epoch \<open>i\<close> is known.\<close>

definition update_best ::
  "bool \<Rightarrow> int \<Rightarrow> pyfloat \<Rightarrow> ('a, 'o) fit_state \<Rightarrow> ('a, 'o) fit_state" where
  "update_best minimize i val_loss st =
     (if minimize \<and> lt val_loss (best_score st) then
        (case deepcopy (hp st) (W_vect (self st)) of
           (h', c) \<Rightarrow> st\<lparr>hp := h', best_score := val_loss, best_inst := c, best_epoch := i\<rparr>)
      else if \<not> minimize \<and> gt val_loss (best_score st) then
        (case deepcopy (hp st) (W_vect (self st)) of
           (h', c) \<Rightarrow> st\<lparr>hp := h', best_score := val_loss, best_inst := c, best_epoch := i\<rparr>)
      else st)"

text \<open>
  One pass of the body of the epoch loop (lines 97 to 130) for epoch \<open>i\<close>. It returns
  the new state and \<^verbatim>\<open>to_stop\<close>. An exception leaves \<^verbatim>\<open>fit\<close>.
\<close>

definition epoch_body ::
  "'a batcher \<Rightarrow> ('a, 'o) fit_args \<Rightarrow> bool \<Rightarrow> int \<Rightarrow> ('a, 'o) fit_state
     \<Rightarrow> error + (('a, 'o) fit_state \<times> bool)" where
  "epoch_body gen_batch args v i st =
     (case batch_loop (optimiser args) v (gen_batch (train_sample args) (batch_size args))
             (self st, ostate st, hp st, False, []) of
        Inl e \<Rightarrow> Inl e
      | Inr (net, os, h, to_stop, tr_accum_loss) \<Rightarrow>
          (let hist1 = (history st)
                 \<lparr>epoch := epoch (history st) @ [i],
                  train_loss := train_loss (history st) @ [mean tr_accum_loss]\<rparr>
           in case eval_ffn net h (fst (validation_sample args)) (snd (validation_sample args)) of
                Inl e \<Rightarrow> Inl e
              | Inr r \<Rightarrow>
                  (case index0 r of
                     Inl e \<Rightarrow> Inl e
                   | Inr val_loss \<Rightarrow>
                       Inr (update_best (minimize_metric args) i val_loss
                              (st\<lparr>self := net, ostate := os, hp := h,
                                  history := hist1\<lparr>validation_loss :=
                                    validation_loss hist1 @ [val_loss]\<rparr>\<rparr>),
                            to_stop))))"

text \<open>The epoch loop (line 95) over the epoch indices still to come, with its \<^verbatim>\<open>break\<close>.\<close>

fun epoch_loop ::
  "'a batcher \<Rightarrow> ('a, 'o) fit_args \<Rightarrow> bool \<Rightarrow> int list \<Rightarrow> ('a, 'o) fit_state
     \<Rightarrow> error + ('a, 'o) fit_state" where
  "epoch_loop gen_batch args v [] st = Inr st"
| "epoch_loop gen_batch args v (i # rest) st =
     (case epoch_body gen_batch args v i st of
        Inl e \<Rightarrow> Inl e
      | Inr (st', to_stop) \<Rightarrow> if to_stop then Inr st' else epoch_loop gen_batch args v rest st')"

text \<open>Lines 85 and 86: a missing or falsy argument takes the default.\<close>

definition verbose_of :: "bool option \<Rightarrow> bool" where
  "verbose_of vb = (case vb of None \<Rightarrow> False | Some b \<Rightarrow> if b then b else False)"

definition epochs_of :: "int option \<Rightarrow> int" where
  "epochs_of n_epochs = (case n_epochs of None \<Rightarrow> 1 | Some n \<Rightarrow> if n \<noteq> 0 then n else 1)"

text \<open>Lines 83 to 93: the state before the first epoch.\<close>

definition fit_init ::
  "('a, 'o) fit_args \<Rightarrow> ('a, 'o) FFN \<Rightarrow> 'o \<Rightarrow> heap \<Rightarrow> ('a, 'o) fit_state" where
  "fit_init args net os h =
     \<lparr>self = net\<lparr>optimiser' := Some (optimiser args)\<rparr>,
      ostate = os,
      hp = h,
      best_inst = None,
      best_score = (if minimize_metric args then PInf else NInf),
      best_epoch = 0,
      history = \<lparr>epoch = [], train_loss = [], validation_loss = []\<rparr>\<rparr>"

text \<open>The epochs \<^verbatim>\<open>range(epochs)\<close> of line 95; the range of a negative number is empty.\<close>

definition epoch_range :: "int option \<Rightarrow> int list" where
  "epoch_range n_epochs = [0..epochs_of n_epochs - 1]"

text \<open>
  \<^verbatim>\<open>FFN.fit\<close> (lines 72 to 138). It returns the network and the history; the
  optimizer state and the store after the call are returned with them. The progress bar
  and the printing under \<^verbatim>\<open>verbose\<close> are console output and are left out.
\<close>

definition fit ::
  "'a batcher \<Rightarrow> ('a, 'o) FFN \<Rightarrow> 'o \<Rightarrow> heap \<Rightarrow> ('a, 'o) fit_args
     \<Rightarrow> error + ((('a, 'o) FFN \<times> history) \<times> 'o \<times> heap)" where
  "fit gen_batch net os h args =
     (case epoch_loop gen_batch args (verbose_of (verbose args)) (epoch_range (epochs args))
             (fit_init args net os h) of
        Inl e \<Rightarrow> Inl e
      | Inr st \<Rightarrow>
          Inr (((if load_best_model_on_end args then (self st)\<lparr>W_vect := best_inst st\<rparr>
                 else self st),
                history st),
               ostate st, hp st))"

section \<open>The properties, in the words of the specification\<close>

text \<open>
  The penalty of the specification: the squared L2 norm for the kind \<^verbatim>\<open>"l2"\<close>, the L1
  norm for \<^verbatim>\<open>"l1"\<close>, zero for any other kind, and zero whenever \<^verbatim>\<open>omit_reg\<close> is set.
\<close>

definition penalty :: "string \<Rightarrow> bool \<Rightarrow> vec \<Rightarrow> real" where
  "penalty kind omit_reg W =
     (if omit_reg then 0
      else if kind = ''l2'' then (\<Sum>w\<leftarrow>W. w ^ 2)
      else if kind = ''l1'' then (\<Sum>w\<leftarrow>W. \<bar>w\<bar>)
      else 0)"

text \<open>
  A strict improvement of the score \<open>v\<close> on \<open>best\<close>: strictly smaller when the
  metric is minimised, strictly larger when it is maximised.
\<close>

definition improves :: "bool \<Rightarrow> pyfloat \<Rightarrow> pyfloat \<Rightarrow> bool" where
  "improves minimize v best = (if minimize then lt v best else gt v best)"

text \<open>The score \<^verbatim>\<open>best_score\<close> starts from: the worst value in the chosen direction.\<close>

definition init_score :: "bool \<Rightarrow> pyfloat" where
  "init_score minimize = (if minimize then PInf else NInf)"

text \<open>
  The validation loss of a parameter vector \<open>w\<close> on the sample \<open>vs\<close>, computed as
  line 113 computes it for the live vector: element 0 of the loss without
  regularization.
\<close>

definition val_of :: "('a, 'o) FFN \<Rightarrow> 'a \<times> 'a \<Rightarrow> vec \<Rightarrow> error + pyfloat" where
  "val_of net vs w =
     (case loss net (Some w) (fst vs) (snd vs) True of Inl e \<Rightarrow> Inl e | Inr r \<Rightarrow> index0 r)"

text \<open>
  What is assumed of an optimizer about arrays, when the vector it is given is an
  allocated array or \<^verbatim>\<open>None\<close>: the vector it returns is the array it was given
  (perhaps updated in place) or one it has just allocated, and it writes to no other
  array that existed when it was called.
\<close>

definition opt_frame :: "('a, 'o) optimizer \<Rightarrow> bool" where
  "opt_frame opt =
     (\<forall>os h lf X y w v stop inst l os' h'.
        opt os h lf X y w v = Inr ((stop, inst, l), os', h') \<longrightarrow>
        (\<forall>a. w = Some a \<longrightarrow> a < fresh h) \<longrightarrow>
          fresh h \<le> fresh h' \<and> inst < fresh h' \<and>
          (inst < fresh h \<longrightarrow> w = Some inst) \<and>
          (\<forall>b < fresh h. w \<noteq> Some b \<longrightarrow> cells h' b = cells h b))"

text \<open>
  The invariant of the epoch loop about the snapshot, for a call of \<^verbatim>\<open>fit\<close> that
  started when \<open>f0\<close> was the next free address. The live vector is an allocated
  array. While there is no snapshot, the score is the initial one and no validation loss
  so far improved on it. A snapshot is an array allocated during this call, it is not the
  live vector, and its contents have the validation loss \<^verbatim>\<open>best_score\<close>.
\<close>

definition snapshot_inv :: "addr \<Rightarrow> ('a, 'o) fit_args \<Rightarrow> ('a, 'o) fit_state \<Rightarrow> bool" where
  "snapshot_inv f0 args st =
     ((\<exists>a. W_vect (self st) = Some a \<and> a < fresh (hp st)) \<and> f0 \<le> fresh (hp st) \<and>
      (case best_inst st of
         None \<Rightarrow>
           (\<forall>x \<in> set (validation_loss (history st)).
              \<not> improves (minimize_metric args) x (init_score (minimize_metric args))) \<and>
           best_score st = init_score (minimize_metric args)
       | Some b \<Rightarrow>
           f0 \<le> b \<and> b < fresh (hp st) \<and> W_vect (self st) \<noteq> Some b \<and>
           val_of (self st) (validation_sample args) (cells (hp st) b) = Inr (best_score st)))"

text \<open>
  The invariant of the epoch loop about the score, for a network that holds a vector:
  while there is no snapshot, the score is the initial one and no validation loss so far
  improved on it; once there is a snapshot, its score is one of the validation losses
  and improves on the initial one.
\<close>

definition score_inv :: "('a, 'o) fit_args \<Rightarrow> ('a, 'o) fit_state \<Rightarrow> bool" where
  "score_inv args st =
     ((\<exists>a. W_vect (self st) = Some a) \<and>
      (case best_inst st of
         None \<Rightarrow>
           (\<forall>x \<in> set (validation_loss (history st)).
              \<not> improves (minimize_metric args) x (init_score (minimize_metric args))) \<and>
           best_score st = init_score (minimize_metric args)
       | Some b \<Rightarrow>
           best_score st \<in> set (validation_loss (history st)) \<and>
           improves (minimize_metric args) (best_score st) (init_score (minimize_metric args))))"

section \<open>A small network for concrete runs\<close>

text \<open>
  A layer with \<open>n\<close> parameters that adds the sum of its parameters to its input. Its
  identifier is a run of \<open>L\<close>s, one more than its position, so that layers at
  different positions have different identifiers.
\<close>

definition test_layer :: "nat \<Rightarrow> real layer" where
  "test_layer n =
     \<lparr>number = 0,
      str_of = (\<lambda>k. replicate (Suc k) CHR ''L''),
      build_weights_dict = (\<lambda>s. Inr (n, s)),
      initializer = (\<lambda>k. replicate k 1),
      forward = (\<lambda>x w. x + sum_list w)\<rparr>"

text \<open>A loss that returns a one-element array, and the same loss as a bare scalar.\<close>

definition array_loss :: "real \<Rightarrow> real \<Rightarrow> lossval" where
  "array_loss p y = Array [Fin (p - y)]"

definition scalar_loss :: "real \<Rightarrow> real \<Rightarrow> lossval" where
  "scalar_loss p y = Scalar (Fin (p - y))"

definition empty_heap :: heap where
  "empty_heap = \<lparr>cells = (\<lambda>a. []), fresh = 0\<rparr>"

definition no_kwargs :: kwargs where
  "no_kwargs = \<lparr>kw_regularization = None, kw_reg_coef = None\<rparr>"

text \<open>Keyword arguments that give the coefficient and leave the kind out.\<close>

definition coef_kwargs :: kwargs where
  "coef_kwargs = \<lparr>kw_regularization = None, kw_reg_coef = Some (1 / 2)\<rparr>"

text \<open>The network of one \<open>test_layer 1\<close> as \<open>FFN_init\<close> builds it, and the store then.\<close>

definition test_net :: "(real, (bool \<times> real) list) FFN" where
  "test_net =
     \<lparr>parser = \<lparr>descriptors = [(''L'', 0, [1])], cursor = 1\<rparr>,
      regularization = ''l2'',
      reg_coef = 0,
      layer_specs = [test_layer 1],
      loss' = array_loss,
      W_vect = Some 0,
      optimiser' = None\<rparr>"

definition test_heap :: heap where
  "test_heap = \<lparr>cells = (\<lambda>a. [])(0 := [1 / 10]), fresh = 1\<rparr>"

text \<open>A loss whose value is always NaN, as a diverged training produces.\<close>

definition nan_loss :: "real \<Rightarrow> real \<Rightarrow> lossval" where
  "nan_loss p y = Array [NaN]"

text \<open>
  An optimizer that follows a script, its state: each call takes the next entry
  \<open>(stop, r)\<close>, overwrites the vector it is given with \<open>[r]\<close> in place, and returns
  the flag \<open>stop\<close> and the batch loss \<open>r\<close>. Without a vector it allocates one. It
  raises when the script is used up.
\<close>

definition scripted :: "(real, (bool \<times> real) list) optimizer" where
  "scripted os h lf X y w v =
     (case os of
        [] \<Rightarrow> Inl OptimizerError
      | (stop, r) # rest \<Rightarrow>
          (case w of
             None \<Rightarrow> (case alloc h [r] of (h', a) \<Rightarrow> Inr ((stop, a, Fin r), rest, h'))
           | Some a \<Rightarrow> Inr ((stop, a, Fin r), rest, h\<lparr>cells := (cells h)(a := [r])\<rparr>)))"

text \<open>A batcher that yields the whole sample \<open>n\<close> times for the batch size \<open>n\<close>.\<close>

definition repeat_batches :: "real batcher" where
  "repeat_batches s n = replicate (nat n) s"

definition test_args :: "(real, (bool \<times> real) list) fit_args" where
  "test_args =
     \<lparr>optimiser = scripted,
      train_sample = (0, 0),
      validation_sample = (0, 0),
      batch_size = 1,
      epochs = None,
      verbose = None,
      load_best_model_on_end = True,
      minimize_metric = True\<rparr>"

text \<open>The script whose validation losses are 0.9, 0.5, 0.5, 0.3, with a tie.\<close>

definition tie_script :: "(bool \<times> real) list" where
  "tie_script = [(False, 9 / 10), (False, 1 / 2), (False, 1 / 2), (False, 3 / 10)]"

section \<open>The loss\<close>

lemma norm2_squared: "(linalg_norm W 2) ^ 2 = (\<Sum>w\<leftarrow>W. w ^ 2)"
proof -
  have "0 \<le> (\<Sum>w\<leftarrow>W. \<bar>w\<bar> ^ 2)"
    by (rule sum_list_nonneg) auto
  then have "(sqrt (\<Sum>w\<leftarrow>W. \<bar>w\<bar> ^ 2)) ^ 2 = (\<Sum>w\<leftarrow>W. \<bar>w\<bar> ^ 2)"
    by simp
  then show ?thesis
    by (simp add: linalg_norm_def sqrt_def)
qed

lemma norm1_sum: "linalg_norm W (Suc 0) = (\<Sum>w\<leftarrow>W. \<bar>w\<bar>)"
  by (simp add: linalg_norm_def)

lemma reg_term_penalty:
  "reg_term net (Some W) omit_reg = Inr (penalty (regularization net) omit_reg W)"
  by (simp add: reg_term_def penalty_def norm2_squared norm1_sum)

lemma padd_zero: "padd x (Fin 0) = x"
  by (cases x) simp_all

lemma add_real_zero: "add_real v 0 = v"
  by (cases v) (simp_all add: padd_zero)

text \<open>
  C1. For every parameter vector \<open>W\<close>, inputs \<open>X\<close>, targets \<open>y\<close> and flag
  \<open>omit_reg\<close>, \<open>loss\<close> is the base loss of the prediction plus \<open>reg_coef\<close> times the
  penalty: the squared L2 norm of \<open>W\<close> for the kind \<^verbatim>\<open>"l2"\<close>, the L1 norm for
  \<^verbatim>\<open>"l1"\<close>, zero for any other kind, and zero whenever \<open>omit_reg\<close> is true. An error of
  the forward pass is the error of \<open>loss\<close>.
\<close>

theorem loss_formula:
  "loss net (Some W) X y omit_reg =
     (case predict' net (Some W) X of
        Inl e \<Rightarrow> Inl e
      | Inr p \<Rightarrow>
          Inr (add_real (loss' net p y)
                 (reg_coef net * penalty (regularization net) omit_reg W)))"
  by (simp add: loss_def reg_term_penalty)

theorem loss_formula_witness:
  "loss (test_net\<lparr>reg_coef := 1 / 2\<rparr>) (Some [3, 4]) 1 0 False = Inr (Array [Fin (33 / 2)])"
proof -
  have "loss (test_net\<lparr>reg_coef := 1 / 2\<rparr>) (Some [3, 4]) 1 0 False =
     (case predict' (test_net\<lparr>reg_coef := 1 / 2\<rparr>) (Some [3, 4]) 1 of
        Inl e \<Rightarrow> Inl e
      | Inr p \<Rightarrow>
          Inr (add_real (loss' (test_net\<lparr>reg_coef := 1 / 2\<rparr>) p 0)
                 (reg_coef (test_net\<lparr>reg_coef := 1 / 2\<rparr>) *
                  penalty (regularization (test_net\<lparr>reg_coef := 1 / 2\<rparr>)) False [3, 4])))"
    by (rule loss_formula)
  also have "\<dots> = Inr (Array [Fin (33 / 2)])"
    by (simp add: predict'_def test_net_def get_def str_def test_layer_def penalty_def
          array_loss_def)
  finally show ?thesis .
qed

lemma eval_ffn_value:
  "eval_ffn net h x y =
     (case predict' net (deref h (W_vect net)) x of
        Inl e \<Rightarrow> Inl e
      | Inr p \<Rightarrow> Inr (loss' net p y))"
  by (simp add: eval_ffn_def loss_def reg_term_def add_real_zero split: sum.splits)

text \<open>
  C7. For every input \<open>x\<close> and target \<open>y\<close>, \<open>eval\<close> is \<open>loss\<close> at the network's
  current live parameter vector with \<open>omit_reg\<close> true, so the value is the base loss
  of the prediction with no regularization penalty in it.
\<close>

theorem eval_omits_reg:
  "eval_ffn net h x y = loss net (deref h (W_vect net)) x y True \<and>
   eval_ffn net h x y =
     (case predict' net (deref h (W_vect net)) x of
        Inl e \<Rightarrow> Inl e
      | Inr p \<Rightarrow> Inr (loss' net p y))"
  by (simp add: eval_ffn_def loss_def reg_term_def add_real_zero split: sum.splits)

theorem eval_omits_reg_witness:
  "eval_ffn (test_net\<lparr>reg_coef := 1 / 2\<rparr>) test_heap 1 0 = Inr (Array [Fin (11 / 10)])"
proof -
  from eval_omits_reg [of "test_net\<lparr>reg_coef := 1 / 2\<rparr>" test_heap 1 0]
  have "eval_ffn (test_net\<lparr>reg_coef := 1 / 2\<rparr>) test_heap 1 0 =
     (case predict' (test_net\<lparr>reg_coef := 1 / 2\<rparr>)
             (deref test_heap (W_vect (test_net\<lparr>reg_coef := 1 / 2\<rparr>))) 1 of
        Inl e \<Rightarrow> Inl e
      | Inr p \<Rightarrow> Inr (loss' (test_net\<lparr>reg_coef := 1 / 2\<rparr>) p 0))"
    by (rule conjunct2)
  also have "\<dots> = Inr (Array [Fin (11 / 10)])"
    by (simp add: predict'_def test_net_def get_def str_def test_layer_def deref_def
          test_heap_def array_loss_def)
  finally show ?thesis .
qed

section \<open>Construction\<close>

lemma registered_size_add:
  "add_weights p ident [n] = Inr p' \<Longrightarrow> registered_size p' = registered_size p + n"
  by (auto simp: add_weights_def registered_size_def split: if_splits)

lemma build_layers_length:
  "build_layers p s W num specs = Inr (p', s', W', specs') \<Longrightarrow>
   (\<forall>l \<in> set specs. \<forall>n. length (initializer l n) = n) \<Longrightarrow>
   length W' + registered_size p = length W + registered_size p'"
proof (induction specs arbitrary: p s W num p' s' W' specs')
  case Nil
  then show ?case by simp
next
  case (Cons l ls)
  from Cons.prems(1) obtain n s1 p1 ls' where
    bw: "build_weights_dict l s = Inr (n, s1)" and
    aw: "add_weights p (str (l\<lparr>number := num\<rparr>)) [n] = Inr p1" and
    rest: "build_layers p1 s1 (W @ initializer l n) (Suc num) ls = Inr (p', s', W', ls')"
    by (auto simp: Let_def split: sum.splits prod.splits)
  from Cons.prems(2) have len: "length (initializer l n) = n" and
    ctr: "\<forall>l \<in> set ls. \<forall>n. length (initializer l n) = n"
    by simp_all
  from Cons.IH [OF rest ctr] have
    "length W' + registered_size p1 = length (W @ initializer l n) + registered_size p'" .
  with len registered_size_add [OF aw] show ?case
    by simp
qed

lemma replicate_2: "replicate 2 x = [x, x]"
  by (simp add: numeral_2_eq_2)

lemma test_build:
  "build_layers WeightsParser [3] [] 0 [test_layer 2, test_layer 1] =
     Inr (\<lparr>descriptors = [(''L'', 0, [2]), (''LL'', 2, [1])], cursor = 3\<rparr>, [3], [1, 1, 1],
          [(test_layer 2)\<lparr>number := 0\<rparr>, (test_layer 1)\<lparr>number := 1\<rparr>])"
  by (simp add: Let_def str_def WeightsParser_def add_weights_def test_layer_def replicate_2)

lemma test_init:
  "FFN_init empty_heap [3] [test_layer 2, test_layer 1] array_loss no_kwargs =
     Inr (\<lparr>parser = \<lparr>descriptors = [(''L'', 0, [2]), (''LL'', 2, [1])], cursor = 3\<rparr>,
           regularization = ''l2'',
           reg_coef = 0,
           layer_specs = [(test_layer 2)\<lparr>number := 0\<rparr>, (test_layer 1)\<lparr>number := 1\<rparr>],
           loss' = array_loss,
           W_vect = Some 0,
           optimiser' = None\<rparr>,
          \<lparr>cells = (\<lambda>a. [])(0 := [1 / 10, 1 / 10, 1 / 10]), fresh = 1\<rparr>)"
  unfolding FFN_init_def test_build
  by (simp add: alloc_def empty_heap_def no_kwargs_def)

text \<open>
  C5. Right after a construction that succeeds, the flat parameter vector has as many
  entries as the parser has registered over all layers, for any layers whose initializer
  returns exactly the number of values it is asked for.
\<close>

theorem layout_invariant:
  assumes "FFN_init h input_shape specs loss_f kw = Inr (net, h')"
    and "\<forall>l \<in> set specs. \<forall>n. length (initializer l n) = n"
  shows "\<exists>a. W_vect net = Some a \<and> length (cells h' a) = registered_size (parser net)"
proof -
  from assms(1) obtain p s W specs' where
    bl: "build_layers WeightsParser input_shape [] 0 specs = Inr (p, s, W, specs')" and
    net: "W_vect net = Some (fresh h)" "parser net = p" and
    h': "cells h' (fresh h) = map (\<lambda>w. 0.1 * w) W"
    by (auto simp: FFN_init_def alloc_def split: sum.splits prod.splits)
  from build_layers_length [OF bl assms(2)] have "length W = registered_size p"
    by (simp add: registered_size_def WeightsParser_def)
  with net h' show ?thesis
    by simp
qed

theorem layout_invariant_witness:
  "length [1 / 10, 1 / 10, 1 / (10::real)] =
     registered_size \<lparr>descriptors = [(''L'', 0, [2]), (''LL'', 2, [1])], cursor = 3\<rparr>"
proof -
  have c: "\<forall>l \<in> set [test_layer 2, test_layer 1]. \<forall>n. length (initializer l n) = n"
    by (simp add: test_layer_def)
  show ?thesis
    using layout_invariant [OF test_init c]
    by simp
qed

lemma test_init_coef:
  "FFN_init empty_heap [3] [test_layer 2, test_layer 1] array_loss coef_kwargs =
     Inr (\<lparr>parser = \<lparr>descriptors = [(''L'', 0, [2]), (''LL'', 2, [1])], cursor = 3\<rparr>,
           regularization = ''l2'',
           reg_coef = 1 / 2,
           layer_specs = [(test_layer 2)\<lparr>number := 0\<rparr>, (test_layer 1)\<lparr>number := 1\<rparr>],
           loss' = array_loss,
           W_vect = Some 0,
           optimiser' = None\<rparr>,
          \<lparr>cells = (\<lambda>a. [])(0 := [1 / 10, 1 / 10, 1 / 10]), fresh = 1\<rparr>)"
  unfolding FFN_init_def test_build
  by (simp add: alloc_def empty_heap_def coef_kwargs_def)

lemma add_real_Fin:
  "add_real (Scalar (Fin b)) r = Scalar (Fin (b + r))"
  "add_real (Array (map Fin bs)) r = Array (map (\<lambda>b. Fin (b + r)) bs)"
  by simp_all

text \<open>
  C10. A network constructed without the regularization keyword has the kind
  \<^verbatim>\<open>"l2"\<close> and the coefficient it was given (0 when that is left out too). Its loss
  with \<open>omit_reg\<close> false is the base loss plus \<open>reg_coef\<close> times the squared L2 norm
  of the vector: a finite base loss \<open>b\<close> becomes \<open>b + reg_coef * \<Sum> w\<^sup>2\<close>, which
  differs from \<open>b\<close> whenever \<open>reg_coef\<close> and the vector are not zero.
\<close>

theorem default_regularization:
  assumes "FFN_init h input_shape specs loss_f kw = Inr (net, h')"
    and "kw_regularization kw = None"
  shows "regularization net = ''l2'' \<and>
     reg_coef net = (case kw_reg_coef kw of None \<Rightarrow> 0 | Some c \<Rightarrow> c) \<and>
     loss net (Some W) X y False =
       (case predict' net (Some W) X of
          Inl e \<Rightarrow> Inl e
        | Inr p \<Rightarrow> Inr (add_real (loss' net p y) (reg_coef net * (\<Sum>w\<leftarrow>W. w ^ 2)))) \<and>
     (predict' net (Some W) X = Inr p \<and> loss' net p y = Scalar (Fin b) \<longrightarrow>
        loss net (Some W) X y False =
          Inr (Scalar (Fin (b + reg_coef net * (\<Sum>w\<leftarrow>W. w ^ 2))))) \<and>
     (predict' net (Some W) X = Inr p \<and> loss' net p y = Array (map Fin bs) \<longrightarrow>
        loss net (Some W) X y False =
          Inr (Array (map (\<lambda>b. Fin (b + reg_coef net * (\<Sum>w\<leftarrow>W. w ^ 2))) bs)))"
proof -
  from assms have r: "regularization net = ''l2''"
    and c: "reg_coef net = (case kw_reg_coef kw of None \<Rightarrow> 0 | Some c \<Rightarrow> c)"
    by (auto simp: FFN_init_def split: sum.splits prod.splits)
  from r have l: "loss net (Some W) X y False =
       (case predict' net (Some W) X of
          Inl e \<Rightarrow> Inl e
        | Inr p \<Rightarrow> Inr (add_real (loss' net p y) (reg_coef net * (\<Sum>w\<leftarrow>W. w ^ 2))))"
    by (simp add: loss_def reg_term_def norm2_squared)
  from l have s: "predict' net (Some W) X = Inr p \<and> loss' net p y = Scalar (Fin b) \<longrightarrow>
        loss net (Some W) X y False =
          Inr (Scalar (Fin (b + reg_coef net * (\<Sum>w\<leftarrow>W. w ^ 2))))"
    by (simp add: add_real_Fin)
  from l have a: "predict' net (Some W) X = Inr p \<and> loss' net p y = Array (map Fin bs) \<longrightarrow>
        loss net (Some W) X y False =
          Inr (Array (map (\<lambda>b. Fin (b + reg_coef net * (\<Sum>w\<leftarrow>W. w ^ 2))) bs))"
    by (simp add: add_real_Fin)
  from r c l s a show ?thesis
    by blast
qed

theorem default_regularization_witness:
  "loss
     \<lparr>parser = \<lparr>descriptors = [(''L'', 0, [2]), (''LL'', 2, [1])], cursor = 3\<rparr>,
      regularization = ''l2'',
      reg_coef = 1 / 2,
      layer_specs = [(test_layer 2)\<lparr>number := 0\<rparr>, (test_layer 1)\<lparr>number := 1\<rparr>],
      loss' = array_loss,
      W_vect = Some 0,
      optimiser' = None :: (real, unit) optimizer option\<rparr>
     (Some [1, 2, 3]) 1 0 False = Inr (Array [Fin 14])"
proof -
  let ?net = "\<lparr>parser = \<lparr>descriptors = [(''L'', 0, [2]), (''LL'', 2, [1])], cursor = 3\<rparr>,
      regularization = ''l2'',
      reg_coef = 1 / 2,
      layer_specs = [(test_layer 2)\<lparr>number := 0\<rparr>, (test_layer 1)\<lparr>number := 1\<rparr>],
      loss' = array_loss,
      W_vect = Some 0,
      optimiser' = None :: (real, unit) optimizer option\<rparr>"
  have k: "kw_regularization coef_kwargs = None"
    by (simp add: coef_kwargs_def)
  have p: "predict' ?net (Some [1, 2, 3]) 1 = Inr 7"
    by (simp add: predict'_def get_def str_def test_layer_def)
  have l: "loss' ?net 7 0 = Array (map Fin [7])"
    by (simp add: array_loss_def)
  from default_regularization [OF test_init_coef k, where W = "[1, 2, 3]" and X = 1
      and y = 0 and p = 7 and bs = "[7]"] p l
  have "loss ?net (Some [1, 2, 3]) 1 0 False =
      Inr (Array (map (\<lambda>b. Fin (b + reg_coef ?net * (\<Sum>w\<leftarrow>[1, 2, 3]. w ^ 2))) [7]))"
    by blast
  then show ?thesis
    by simp
qed

section \<open>The training loop\<close>

lemma reg_term_W_vect: "reg_term (net\<lparr>W_vect := w\<rparr>) W omit = reg_term net W omit"
  by (simp add: reg_term_def)

lemma predict_W_vect: "predict' (net\<lparr>W_vect := w\<rparr>) W X = predict' net W X"
  by (simp add: predict'_def)

lemma loss_W_vect: "loss (net\<lparr>W_vect := w\<rparr>) = loss net"
  by (intro ext) (simp add: loss_def reg_term_W_vect predict_W_vect split: sum.splits)

lemma batch_loop_frame:
  "batch_loop opt v bs (net, os, h, ts, acc) = Inr (net', os', h', ts', acc') \<Longrightarrow>
   \<exists>w. net' = net\<lparr>W_vect := w\<rparr>"
proof (induction bs arbitrary: net os h ts acc)
  case Nil
  then have "net' = net\<lparr>W_vect := W_vect net\<rparr>" by simp
  then show ?case ..
next
  case (Cons b bs)
  obtain X y where b: "b = (X, y)" by (cases b)
  from Cons.prems b obtain stop inst l os1 h1 where
    rest: "batch_loop opt v bs (net\<lparr>W_vect := Some inst\<rparr>, os1, h1, stop, acc @ [l]) =
             Inr (net', os', h', ts', acc')"
    by (auto split: sum.splits)
  from Cons.IH [OF rest] obtain w where "net' = net\<lparr>W_vect := Some inst\<rparr>\<lparr>W_vect := w\<rparr>" ..
  then have "net' = net\<lparr>W_vect := w\<rparr>" by simp
  then show ?case ..
qed

lemma update_best_self: "self (update_best m i x st) = self st"
  by (simp add: update_best_def split: prod.splits)

lemma update_best_history: "history (update_best m i x st) = history st"
  by (simp add: update_best_def split: prod.splits)

lemma epoch_body_frame:
  assumes "epoch_body gb args v i st = Inr (st', stop)"
  shows "\<exists>w. self st' = (self st)\<lparr>W_vect := w\<rparr>"
proof -
  from assms obtain net os h ts acc where
    bl: "batch_loop (optimiser args) v (gb (train_sample args) (batch_size args))
           (self st, ostate st, hp st, False, []) = Inr (net, os, h, ts, acc)" and
    s: "self st' = net"
    by (auto simp: epoch_body_def Let_def update_best_self split: sum.splits prod.splits)
  from batch_loop_frame [OF bl] s show ?thesis
    by simp
qed

lemma epoch_loop_frame:
  "epoch_loop gb args v es st = Inr st' \<Longrightarrow> \<exists>w. self st' = (self st)\<lparr>W_vect := w\<rparr>"
proof (induction es arbitrary: st)
  case Nil
  then have "self st' = (self st)\<lparr>W_vect := W_vect (self st)\<rparr>" by simp
  then show ?case ..
next
  case (Cons i es)
  from Cons.prems obtain st1 stop where
    body: "epoch_body gb args v i st = Inr (st1, stop)" and
    rest: "stop \<and> st' = st1 \<or> \<not> stop \<and> epoch_loop gb args v es st1 = Inr st'"
    by (auto split: sum.splits if_splits)
  from epoch_body_frame [OF body] obtain w1 where
    f1: "self st1 = (self st)\<lparr>W_vect := w1\<rparr>" ..
  from rest show ?case
  proof
    assume "stop \<and> st' = st1"
    with f1 show ?thesis by blast
  next
    assume "\<not> stop \<and> epoch_loop gb args v es st1 = Inr st'"
    then obtain w where "self st' = (self st1)\<lparr>W_vect := w\<rparr>"
      using Cons.IH by blast
    with f1 have "self st' = (self st)\<lparr>W_vect := w\<rparr>" by simp
    then show ?thesis ..
  qed
qed

text \<open>
  C9, as amended. A call of \<^verbatim>\<open>fit\<close> that returns assigns two fields of the network
  and no other: \<^verbatim>\<open>W_vect\<close> and \<^verbatim>\<open>_optimiser\<close>, which becomes the optimizer
  passed in. The layer sequence, the parser, the loss function, the regularization kind
  and the coefficient are the same before and after.
\<close>

theorem fit_frame:
  assumes "fit gb net os h args = Inr ((net', hist), os', h')"
  shows "net' = net\<lparr>optimiser' := Some (optimiser args), W_vect := W_vect net'\<rparr> \<and>
    parser net' = parser net \<and> layer_specs net' = layer_specs net \<and>
    loss' net' = loss' net \<and> regularization net' = regularization net \<and>
    reg_coef net' = reg_coef net \<and> optimiser' net' = Some (optimiser args)"
proof -
  from assms obtain st where
    run: "epoch_loop gb args (verbose_of (verbose args)) (epoch_range (epochs args))
            (fit_init args net os h) = Inr st" and
    n: "net' = (if load_best_model_on_end args then (self st)\<lparr>W_vect := best_inst st\<rparr> else self st)"
    by (auto simp: fit_def split: sum.splits)
  from epoch_loop_frame [OF run] obtain w where
    "self st = net\<lparr>optimiser' := Some (optimiser args), W_vect := w\<rparr>"
    by (auto simp: fit_init_def)
  with n have n': "net' = net\<lparr>optimiser' := Some (optimiser args),
      W_vect := (if load_best_model_on_end args then best_inst st else w)\<rparr>"
    by simp
  then have "W_vect net' = (if load_best_model_on_end args then best_inst st else w)"
    by simp
  with n' have "net' = net\<lparr>optimiser' := Some (optimiser args), W_vect := W_vect net'\<rparr>"
    by simp
  with n' show ?thesis
    by simp
qed

lemma epoch_body_epochs: "epoch_body gb (args\<lparr>epochs := e\<rparr>) v i st = epoch_body gb args v i st"
  by (simp add: epoch_body_def Let_def split: sum.splits prod.splits)

lemma epoch_loop_epochs: "epoch_loop gb (args\<lparr>epochs := e\<rparr>) v es st = epoch_loop gb args v es st"
  by (induction es arbitrary: st) (simp_all add: epoch_body_epochs split: sum.splits prod.splits)

lemma fit_init_epochs: "fit_init (args\<lparr>epochs := e\<rparr>) net os h = fit_init args net os h"
  by (simp add: fit_init_def)

lemma fit_epochs:
  "epoch_range e = epoch_range e' \<Longrightarrow>
   fit gb net os h (args\<lparr>epochs := e\<rparr>) = fit gb net os h (args\<lparr>epochs := e'\<rparr>)"
  by (simp add: fit_def epoch_loop_epochs fit_init_epochs split: sum.splits)

lemma epoch_range_simps:
  "epoch_range (Some 0) = [0]" "epoch_range (Some 1) = [0]" "epoch_range None = [0]"
  by (simp_all add: epoch_range_def epochs_of_def)

lemma epoch_body_Inr:
  assumes "epoch_body gb args v i st = Inr (st', stop)"
  obtains net os h acc r val_loss where
    "batch_loop (optimiser args) v (gb (train_sample args) (batch_size args))
       (self st, ostate st, hp st, False, []) = Inr (net, os, h, stop, acc)"
    "eval_ffn net h (fst (validation_sample args)) (snd (validation_sample args)) = Inr r"
    "index0 r = Inr val_loss"
    "st' = update_best (minimize_metric args) i val_loss
       (st\<lparr>self := net, ostate := os, hp := h,
           history := (history st)\<lparr>epoch := epoch (history st) @ [i],
                       train_loss := train_loss (history st) @ [mean acc],
                       validation_loss := validation_loss (history st) @ [val_loss]\<rparr>\<rparr>)"
  using assms
  by (auto simp: epoch_body_def Let_def split: sum.splits prod.splits)

lemma epoch_body_history:
  assumes "epoch_body gb args v i st = Inr (st', stop)"
  shows "\<exists>tr vl. history st' =
     (history st)\<lparr>epoch := epoch (history st) @ [i],
      train_loss := train_loss (history st) @ [tr],
      validation_loss := validation_loss (history st) @ [vl]\<rparr>"
  using assms by (rule epoch_body_Inr) (auto simp: update_best_history)

text \<open>
  C4, as amended. With \<^verbatim>\<open>epochs == 0\<close> the zero is taken for a missing argument and
  replaced by the default 1: \<^verbatim>\<open>fit\<close> does exactly what it does with
  \<^verbatim>\<open>epochs == 1\<close> and with no \<^verbatim>\<open>epochs\<close> at all, and when it returns, its
  history holds exactly one epoch, the epoch 0.
\<close>

theorem zero_epochs_runs_one:
  "fit gb net os h (args\<lparr>epochs := Some 0\<rparr>) = fit gb net os h (args\<lparr>epochs := Some 1\<rparr>) \<and>
   fit gb net os h (args\<lparr>epochs := Some 0\<rparr>) = fit gb net os h (args\<lparr>epochs := None\<rparr>) \<and>
   (\<forall>net' hist os' h'.
      fit gb net os h (args\<lparr>epochs := Some 0\<rparr>) = Inr ((net', hist), os', h') \<longrightarrow>
      epoch hist = [0] \<and> length (train_loss hist) = 1 \<and> length (validation_loss hist) = 1)"
proof (intro conjI allI impI)
  show "fit gb net os h (args\<lparr>epochs := Some 0\<rparr>) = fit gb net os h (args\<lparr>epochs := Some 1\<rparr>)"
    by (rule fit_epochs) (simp add: epoch_range_simps)
  show "fit gb net os h (args\<lparr>epochs := Some 0\<rparr>) = fit gb net os h (args\<lparr>epochs := None\<rparr>)"
    by (rule fit_epochs) (simp add: epoch_range_simps)
next
  fix net' hist os' h'
  assume run: "fit gb net os h (args\<lparr>epochs := Some 0\<rparr>) = Inr ((net', hist), os', h')"
  let ?a = "args\<lparr>epochs := Some 0\<rparr>"
  from run obtain st stop where
    body: "epoch_body gb ?a (verbose_of (verbose ?a)) 0 (fit_init ?a net os h) = Inr (st, stop)"
    and hist: "hist = history st"
    by (auto simp: fit_def epoch_range_simps split: sum.splits if_splits)
  from epoch_body_history [OF body] hist obtain tr vl where
    "hist = \<lparr>epoch = [0], train_loss = [tr], validation_loss = [vl]\<rparr>"
    by (auto simp: fit_init_def)
  then show "epoch hist = [0]" "length (train_loss hist) = 1" "length (validation_loss hist) = 1"
    by simp_all
qed

lemma lt_irrefl: "\<not> lt x x"
  by (cases x) simp_all

lemma lt_trans: "lt a b \<Longrightarrow> lt b c \<Longrightarrow> lt a c"
  by (cases a; cases b; cases c) simp_all

lemma improves_irrefl: "\<not> improves m x x"
  by (simp add: improves_def gt_def lt_irrefl)

lemma improves_trans: "improves m a b \<Longrightarrow> improves m b c \<Longrightarrow> improves m a c"
  by (auto simp: improves_def gt_def intro: lt_trans split: if_splits)

lemma deepcopy_same_contents:
  "deepcopy h r = (h', c) \<Longrightarrow> deref h' c = deref h' r \<and> deref h' r = deref h r"
  by (auto simp: deepcopy_def alloc_def deref_def split: option.splits)

lemma update_best_improves:
  assumes "improves m x (best_score st)"
  shows "best_score (update_best m i x st) = x \<and> best_epoch (update_best m i x st) = i \<and>
     deref (hp (update_best m i x st)) (best_inst (update_best m i x st)) =
       deref (hp (update_best m i x st)) (W_vect (self st))"
proof -
  obtain h' c where d: "deepcopy (hp st) (W_vect (self st)) = (h', c)"
    by (cases "deepcopy (hp st) (W_vect (self st))")
  from assms d have "update_best m i x st =
      st\<lparr>hp := h', best_score := x, best_inst := c, best_epoch := i\<rparr>"
    by (auto simp: update_best_def improves_def split: if_splits)
  with deepcopy_same_contents [OF d] show ?thesis
    by simp
qed

lemma update_best_keeps: "\<not> improves m x (best_score st) \<Longrightarrow> update_best m i x st = st"
  by (auto simp: update_best_def improves_def)

lemma update_best_score:
  "best_score (update_best m i x st) = best_score st \<or>
   improves m (best_score (update_best m i x st)) (best_score st)"
  using update_best_improves [of m x st i] update_best_keeps [of m x st i]
  by (cases "improves m x (best_score st)") auto

lemma epoch_body_score:
  assumes "epoch_body gb args v i st = Inr (st', stop)"
  shows "best_score st' = best_score st \<or> improves (minimize_metric args) (best_score st') (best_score st)"
  using assms
proof (rule epoch_body_Inr)
  fix net os h acc r val_loss
  let ?st1 = "st\<lparr>self := net, ostate := os, hp := h,
           history := (history st)\<lparr>epoch := epoch (history st) @ [i],
                       train_loss := train_loss (history st) @ [mean acc],
                       validation_loss := validation_loss (history st) @ [val_loss]\<rparr>\<rparr>"
  assume "st' = update_best (minimize_metric args) i val_loss ?st1"
  with update_best_score [of "minimize_metric args" i val_loss ?st1] show ?thesis
    by simp
qed

lemma epoch_loop_score:
  "epoch_loop gb args v es st = Inr st' \<Longrightarrow>
   best_score st' = best_score st \<or> improves (minimize_metric args) (best_score st') (best_score st)"
proof (induction es arbitrary: st)
  case Nil
  then show ?case by simp
next
  case (Cons i es)
  from Cons.prems obtain st1 stop where
    body: "epoch_body gb args v i st = Inr (st1, stop)" and
    rest: "stop \<and> st' = st1 \<or> \<not> stop \<and> epoch_loop gb args v es st1 = Inr st'"
    by (auto split: sum.splits if_splits)
  note s1 = epoch_body_score [OF body]
  from rest show ?case
  proof
    assume "stop \<and> st' = st1"
    with s1 show ?thesis by simp
  next
    assume "\<not> stop \<and> epoch_loop gb args v es st1 = Inr st'"
    then have "best_score st' = best_score st1 \<or>
        improves (minimize_metric args) (best_score st') (best_score st1)"
      using Cons.IH by blast
    with s1 show ?thesis
      by (auto intro: improves_trans)
  qed
qed

text \<open>
  C2. In one epoch, the snapshot (\<^verbatim>\<open>best_inst\<close>, \<^verbatim>\<open>best_score\<close>,
  \<^verbatim>\<open>best_epoch\<close>) is replaced exactly when the epoch's validation loss strictly
  improves on \<^verbatim>\<open>best_score\<close> in the configured direction, and then it becomes this
  loss, this epoch and a copy with the contents of the live vector; otherwise it is
  unchanged, in particular when the validation loss equals \<^verbatim>\<open>best_score\<close>. Over any
  sequence of epochs, \<^verbatim>\<open>best_score\<close> at the end is the one at the start or a strict
  improvement on it.
\<close>

theorem best_snapshot_strict:
  "(epoch_body gb args v i st = Inr (st', stop) \<longrightarrow>
      (\<exists>val_loss.
         validation_loss (history st') = validation_loss (history st) @ [val_loss] \<and>
         (if improves (minimize_metric args) val_loss (best_score st)
          then best_score st' = val_loss \<and> best_epoch st' = i \<and>
               deref (hp st') (best_inst st') = deref (hp st') (W_vect (self st'))
          else best_score st' = best_score st \<and> best_inst st' = best_inst st \<and>
               best_epoch st' = best_epoch st) \<and>
         (val_loss = best_score st \<longrightarrow>
            best_score st' = best_score st \<and> best_inst st' = best_inst st \<and>
            best_epoch st' = best_epoch st))) \<and>
   (epoch_loop gb args v es st = Inr st'' \<longrightarrow>
      best_score st'' = best_score st \<or>
      improves (minimize_metric args) (best_score st'') (best_score st))"
proof (intro conjI impI)
  assume "epoch_body gb args v i st = Inr (st', stop)"
  then show "\<exists>val_loss.
         validation_loss (history st') = validation_loss (history st) @ [val_loss] \<and>
         (if improves (minimize_metric args) val_loss (best_score st)
          then best_score st' = val_loss \<and> best_epoch st' = i \<and>
               deref (hp st') (best_inst st') = deref (hp st') (W_vect (self st'))
          else best_score st' = best_score st \<and> best_inst st' = best_inst st \<and>
               best_epoch st' = best_epoch st) \<and>
         (val_loss = best_score st \<longrightarrow>
            best_score st' = best_score st \<and> best_inst st' = best_inst st \<and>
            best_epoch st' = best_epoch st)"
  proof (rule epoch_body_Inr)
    fix net os h acc r val_loss
    let ?st1 = "st\<lparr>self := net, ostate := os, hp := h,
           history := (history st)\<lparr>epoch := epoch (history st) @ [i],
                       train_loss := train_loss (history st) @ [mean acc],
                       validation_loss := validation_loss (history st) @ [val_loss]\<rparr>\<rparr>"
    assume st': "st' = update_best (minimize_metric args) i val_loss ?st1"
    have hist: "validation_loss (history st') = validation_loss (history st) @ [val_loss]"
      by (simp add: st' update_best_history)
    have bs: "best_score ?st1 = best_score st" by simp
    show ?thesis
    proof (cases "improves (minimize_metric args) val_loss (best_score st)")
      case True
      then have ne: "val_loss \<noteq> best_score st"
        using improves_irrefl by auto
      from True bs have "improves (minimize_metric args) val_loss (best_score ?st1)"
        by simp
      from update_best_improves [OF this, of i] True ne hist show ?thesis
        by (intro exI [of _ val_loss]) (simp add: st' update_best_self)
    next
      case False
      with bs have "\<not> improves (minimize_metric args) val_loss (best_score ?st1)"
        by simp
      from update_best_keeps [OF this, of i] have "st' = ?st1"
        by (simp add: st')
      then have "best_score st' = best_score st \<and> best_inst st' = best_inst st \<and>
          best_epoch st' = best_epoch st"
        by simp
      with False hist show ?thesis
        by (intro exI [of _ val_loss]) simp
    qed
  qed
next
  assume "epoch_loop gb args v es st = Inr st''"
  then show "best_score st'' = best_score st \<or>
      improves (minimize_metric args) (best_score st'') (best_score st)"
    by (rule epoch_loop_score)
qed

lemma batch_loop_snoc:
  "batch_loop opt v (bs @ [(X, y)]) st0 =
     (case batch_loop opt v bs st0 of
        Inl e \<Rightarrow> Inl e
      | Inr (net, os, h, ts, acc) \<Rightarrow>
          (case opt os h (loss net) X y (W_vect net) v of
             Inl e \<Rightarrow> Inl e
           | Inr ((ts', inst, l), os', h') \<Rightarrow>
               Inr (net\<lparr>W_vect := Some inst\<rparr>, os', h', ts', acc @ [l])))"
proof (induction bs arbitrary: st0)
  case Nil
  obtain net os h ts acc where "st0 = (net, os, h, ts, acc)"
    by (cases st0)
  then show ?case
    by (simp split: sum.splits prod.splits)
next
  case (Cons b bs)
  obtain net os h ts acc where s: "st0 = (net, os, h, ts, acc)"
    by (cases st0)
  obtain X' y' where b: "b = (X', y')"
    by (cases b)
  show ?case
    by (simp add: s b Cons.IH split: sum.splits prod.splits)
qed

text \<open>
  C3, as amended. If the last batch of an epoch returns the stop flag true from the
  optimizer, whatever the earlier batches of the epoch returned, and the epoch's
  validation does not raise, then the epoch loop ends with the state after this epoch:
  the epoch index, the training loss and the validation loss of the epoch have been
  appended to the history, and none of the remaining epochs is run.
\<close>

theorem stop_after_last_batch:
  assumes "gb (train_sample args) (batch_size args) = bs @ [(X, y)]"
    and "batch_loop (optimiser args) v bs (self st, ostate st, hp st, False, []) =
           Inr (net, os, h, ts, acc)"
    and "optimiser args os h (loss net) X y (W_vect net) v = Inr ((True, inst, l), os', h')"
    and "epoch_body gb args v i st = Inr (st1, stop)"
  shows "epoch_loop gb args v (i # rest) st = Inr st1 \<and>
     epoch (history st1) = epoch (history st) @ [i] \<and>
     train_loss (history st1) = train_loss (history st) @ [mean (acc @ [l])] \<and>
     length (validation_loss (history st1)) = Suc (length (validation_loss (history st)))"
proof -
  have bl: "batch_loop (optimiser args) v (gb (train_sample args) (batch_size args))
      (self st, ostate st, hp st, False, []) =
      Inr (net\<lparr>W_vect := Some inst\<rparr>, os', h', True, acc @ [l])"
    by (simp add: assms(1) batch_loop_snoc assms(2) assms(3))
  from assms(4) show ?thesis
  proof (rule epoch_body_Inr)
    fix net2 os2 h2 acc2 r val_loss
    assume "batch_loop (optimiser args) v (gb (train_sample args) (batch_size args))
        (self st, ostate st, hp st, False, []) = Inr (net2, os2, h2, stop, acc2)"
      and st1: "st1 = update_best (minimize_metric args) i val_loss
         (st\<lparr>self := net2, ostate := os2, hp := h2,
           history := (history st)\<lparr>epoch := epoch (history st) @ [i],
                       train_loss := train_loss (history st) @ [mean acc2],
                       validation_loss := validation_loss (history st) @ [val_loss]\<rparr>\<rparr>)"
    with bl have "stop" "acc2 = acc @ [l]"
      by simp_all
    with assms(4) st1 show ?thesis
      by (simp add: update_best_history)
  qed
qed

text \<open>
  C8, as amended. In an epoch whose batches and whose forward pass on the held-out
  sample do not raise: if the loss function returns a non-empty one-dimensional array
  for the prediction, the epoch evaluates the validation loss by \<open>eval\<close> and appends
  element 0 of that array to the history's validation losses; if it returns a bare
  scalar, indexing the value raises and the epoch ends \<^verbatim>\<open>fit\<close> with that error.
\<close>

theorem array_loss_validates:
  assumes "batch_loop (optimiser args) v (gb (train_sample args) (batch_size args))
             (self st, ostate st, hp st, False, []) = Inr (net, os, h, ts, acc)"
    and "predict' net (deref h (W_vect net)) (fst (validation_sample args)) = Inr p"
  shows "(loss' (self st) p (snd (validation_sample args)) = Array (x # xs) \<longrightarrow>
       (\<exists>st'. epoch_body gb args v i st = Inr (st', ts) \<and>
          eval_ffn net h (fst (validation_sample args)) (snd (validation_sample args)) =
            Inr (Array (x # xs)) \<and>
          validation_loss (history st') = validation_loss (history st) @ [x])) \<and>
     (loss' (self st) p (snd (validation_sample args)) = Scalar x \<longrightarrow>
        epoch_body gb args v i st = Inl ScalarIndexError)"
proof -
  from batch_loop_frame [OF assms(1)] obtain w where "net = (self st)\<lparr>W_vect := w\<rparr>" ..
  then have l: "loss' net = loss' (self st)"
    by simp
  have ev: "eval_ffn net h (fst (validation_sample args)) (snd (validation_sample args)) =
      Inr (loss' (self st) p (snd (validation_sample args)))"
    by (simp add: eval_ffn_value assms(2) l)
  show ?thesis
    by (simp add: epoch_body_def assms(1) ev Let_def update_best_history)
qed

lemma opt_frameD:
  assumes "opt_frame opt" and "opt os h lf X y w v = Inr ((stop, inst, l), os', h')"
    and "\<forall>a. w = Some a \<longrightarrow> a < fresh h"
  shows "fresh h \<le> fresh h' \<and> inst < fresh h' \<and>
          (inst < fresh h \<longrightarrow> w = Some inst) \<and>
          (\<forall>b < fresh h. w \<noteq> Some b \<longrightarrow> cells h' b = cells h b)"
proof -
  from assms(1) have "\<forall>os h lf X y w v stop inst l os' h'.
        opt os h lf X y w v = Inr ((stop, inst, l), os', h') \<longrightarrow>
        (\<forall>a. w = Some a \<longrightarrow> a < fresh h) \<longrightarrow>
          fresh h \<le> fresh h' \<and> inst < fresh h' \<and>
          (inst < fresh h \<longrightarrow> w = Some inst) \<and>
          (\<forall>b < fresh h. w \<noteq> Some b \<longrightarrow> cells h' b = cells h b)"
    by (simp only: opt_frame_def)
  then have "opt os h lf X y w v = Inr ((stop, inst, l), os', h') \<longrightarrow>
        (\<forall>a. w = Some a \<longrightarrow> a < fresh h) \<longrightarrow>
          fresh h \<le> fresh h' \<and> inst < fresh h' \<and>
          (inst < fresh h \<longrightarrow> w = Some inst) \<and>
          (\<forall>b < fresh h. w \<noteq> Some b \<longrightarrow> cells h' b = cells h b)"
    by (elim allE [of _ os] allE [of _ h] allE [of _ lf] allE [of _ X] allE [of _ y]
          allE [of _ w] allE [of _ v] allE [of _ stop] allE [of _ inst] allE [of _ l]
          allE [of _ os'] allE [of _ h'])
  with assms(2) assms(3) show ?thesis by blast
qed

lemma batch_loop_private:
  assumes frame: "opt_frame opt"
  shows "batch_loop opt v bs (net, os, h, ts, acc) = Inr (net', os', h', ts', acc') \<Longrightarrow>
     W_vect net = Some a \<Longrightarrow> a < fresh h \<Longrightarrow>
     (\<exists>a'. W_vect net' = Some a' \<and> a' < fresh h') \<and> fresh h \<le> fresh h' \<and>
     (\<forall>b < fresh h. W_vect net \<noteq> Some b \<longrightarrow> W_vect net' \<noteq> Some b \<and> cells h' b = cells h b)"
proof (induction bs arbitrary: net os h ts acc a)
  case Nil
  then show ?case by simp
next
  case (Cons c bs)
  obtain X y where c: "c = (X, y)" by (cases c)
  from Cons.prems(1) c obtain stop inst l os1 h1 where
    call: "opt os h (loss net) X y (W_vect net) v = Inr ((stop, inst, l), os1, h1)" and
    rest: "batch_loop opt v bs (net\<lparr>W_vect := Some inst\<rparr>, os1, h1, stop, acc @ [l]) =
             Inr (net', os', h', ts', acc')"
    by (auto split: sum.splits)
  from Cons.prems(2) Cons.prems(3) have "\<forall>b. W_vect net = Some b \<longrightarrow> b < fresh h"
    by simp
  from opt_frameD [of opt, OF frame, OF call, OF this] have f: "fresh h \<le> fresh h1" "inst < fresh h1"
    "inst < fresh h \<Longrightarrow> W_vect net = Some inst"
    "\<And>b. b < fresh h \<Longrightarrow> W_vect net \<noteq> Some b \<Longrightarrow> cells h1 b = cells h b"
    by simp_all
  have w1: "W_vect (net\<lparr>W_vect := Some inst\<rparr>) = Some inst" by simp
  from Cons.IH [OF rest w1 f(2)] have
    ex: "\<exists>a'. W_vect net' = Some a' \<and> a' < fresh h'" and
    mono: "fresh h1 \<le> fresh h'" and
    priv: "\<And>b. b < fresh h1 \<Longrightarrow> inst \<noteq> b \<Longrightarrow> W_vect net' \<noteq> Some b \<and> cells h' b = cells h1 b"
    by auto
  have "W_vect net' \<noteq> Some b \<and> cells h' b = cells h b"
    if b: "b < fresh h" and nb: "W_vect net \<noteq> Some b" for b
  proof -
    from b f(1) have b1: "b < fresh h1" by simp
    have "inst \<noteq> b"
    proof
      assume "inst = b"
      with b f(3) have "W_vect net = Some b" by simp
      with nb show False by simp
    qed
    from priv [OF b1 this] f(4) [OF b nb] show ?thesis by simp
  qed
  with ex mono f(1) show ?case
    by auto
qed

lemma val_of_W_vect: "val_of (net\<lparr>W_vect := w\<rparr>) = val_of net"
  by (intro ext) (simp add: val_of_def loss_W_vect)

lemma loss_optimiser: "loss (net\<lparr>optimiser' := w\<rparr>) = loss net"
  by (intro ext) (simp add: loss_def reg_term_def predict'_def split: sum.splits)

lemma val_of_optimiser: "val_of (net\<lparr>optimiser' := w\<rparr>) = val_of net"
  by (intro ext) (simp add: val_of_def loss_optimiser)

lemma improves_Fin_init: "improves m (Fin r) (init_score m)"
  by (simp add: improves_def init_score_def gt_def)

lemma epoch_body_inv:
  assumes frame: "opt_frame (optimiser args)"
    and body: "epoch_body gb args v i st = Inr (st', stop)"
    and inv: "snapshot_inv f0 args st"
  shows "snapshot_inv f0 args st'"
  using body
proof (rule epoch_body_Inr)
  fix net1 os1 h1 acc r val_loss
  let ?st1 = "st\<lparr>self := net1, ostate := os1, hp := h1,
           history := (history st)\<lparr>epoch := epoch (history st) @ [i],
                       train_loss := train_loss (history st) @ [mean acc],
                       validation_loss := validation_loss (history st) @ [val_loss]\<rparr>\<rparr>"
  let ?m = "minimize_metric args"
  assume bl: "batch_loop (optimiser args) v (gb (train_sample args) (batch_size args))
        (self st, ostate st, hp st, False, []) = Inr (net1, os1, h1, stop, acc)"
    and ev: "eval_ffn net1 h1 (fst (validation_sample args)) (snd (validation_sample args)) = Inr r"
    and idx: "index0 r = Inr val_loss"
    and st': "st' = update_best ?m i val_loss ?st1"
  from inv obtain a where a: "W_vect (self st) = Some a" "a < fresh (hp st)"
    and f0: "f0 \<le> fresh (hp st)"
    by (auto simp: snapshot_inv_def)
  from batch_loop_private [OF frame bl a] obtain a1 where
    a1: "W_vect net1 = Some a1" "a1 < fresh h1" and
    mono: "fresh (hp st) \<le> fresh h1" and
    priv: "\<And>b. b < fresh (hp st) \<Longrightarrow> W_vect (self st) \<noteq> Some b \<Longrightarrow>
             W_vect net1 \<noteq> Some b \<and> cells h1 b = cells (hp st) b"
    by auto
  from batch_loop_frame [OF bl] obtain w where "net1 = (self st)\<lparr>W_vect := w\<rparr>" ..
  then have vo: "val_of net1 = val_of (self st)"
    by (simp add: val_of_W_vect)
  from ev idx a1 have v1: "val_of net1 (validation_sample args) (cells h1 a1) = Inr val_loss"
    by (simp add: val_of_def eval_ffn_def deref_def)
  show ?thesis
  proof (cases "improves ?m val_loss (best_score st)")
    case True
    then have "st' = ?st1\<lparr>hp := h1\<lparr>cells := (cells h1)(fresh h1 := cells h1 a1),
                                    fresh := Suc (fresh h1)\<rparr>,
                          best_score := val_loss, best_inst := Some (fresh h1),
                          best_epoch := i\<rparr>"
      by (auto simp: st' update_best_def improves_def deepcopy_def alloc_def a1 split: if_splits)
    with a1 f0 mono v1 show ?thesis
      by (simp add: snapshot_inv_def)
  next
    case False
    then have e: "st' = ?st1"
      by (simp add: st' update_best_keeps)
    show ?thesis
    proof (cases "best_inst st")
      case None
      with inv False a1 f0 mono show ?thesis
        by (simp add: snapshot_inv_def e)
    next
      case (Some b)
      with inv have b: "f0 \<le> b" "b < fresh (hp st)" "W_vect (self st) \<noteq> Some b"
        "val_of (self st) (validation_sample args) (cells (hp st) b) = Inr (best_score st)"
        by (simp_all add: snapshot_inv_def)
      from priv [OF b(2) b(3)] b Some a1 f0 mono vo show ?thesis
        by (simp add: snapshot_inv_def e)
    qed
  qed
qed

lemma epoch_loop_inv:
  assumes frame: "opt_frame (optimiser args)"
  shows "epoch_loop gb args v es st = Inr st' \<Longrightarrow> snapshot_inv f0 args st \<Longrightarrow>
     snapshot_inv f0 args st'"
proof (induction es arbitrary: st)
  case Nil
  then show ?case by simp
next
  case (Cons i es)
  from Cons.prems(1) obtain st1 stop where
    body: "epoch_body gb args v i st = Inr (st1, stop)" and
    rest: "stop \<and> st' = st1 \<or> \<not> stop \<and> epoch_loop gb args v es st1 = Inr st'"
    by (auto split: sum.splits if_splits)
  from epoch_body_inv [OF frame body Cons.prems(2)] have "snapshot_inv f0 args st1" .
  with rest Cons.IH show ?case
    by blast
qed

lemma fit_init_inv:
  "W_vect net = Some a0 \<Longrightarrow> a0 < fresh h \<Longrightarrow> snapshot_inv (fresh h) args (fit_init args net os h)"
  by (simp add: snapshot_inv_def fit_init_def init_score_def)

lemma batch_loop_vector:
  "batch_loop opt v bs (net, os, h, ts, acc) = Inr (net', os', h', ts', acc') \<Longrightarrow>
   W_vect net = Some a \<Longrightarrow> \<exists>a'. W_vect net' = Some a'"
proof (induction bs arbitrary: net os h ts acc a)
  case Nil
  then show ?case by simp
next
  case (Cons c bs)
  obtain X y where c: "c = (X, y)" by (cases c)
  from Cons.prems(1) c obtain stop inst l os1 h1 where
    rest: "batch_loop opt v bs (net\<lparr>W_vect := Some inst\<rparr>, os1, h1, stop, acc @ [l]) =
             Inr (net', os', h', ts', acc')"
    by (auto split: sum.splits)
  have "W_vect (net\<lparr>W_vect := Some inst\<rparr>) = Some inst" by simp
  from Cons.IH [OF rest this] show ?case .
qed

lemma epoch_body_score_inv:
  assumes body: "epoch_body gb args v i st = Inr (st', stop)"
    and inv: "score_inv args st"
  shows "score_inv args st'"
  using body
proof (rule epoch_body_Inr)
  fix net1 os1 h1 acc r val_loss
  let ?st1 = "st\<lparr>self := net1, ostate := os1, hp := h1,
           history := (history st)\<lparr>epoch := epoch (history st) @ [i],
                       train_loss := train_loss (history st) @ [mean acc],
                       validation_loss := validation_loss (history st) @ [val_loss]\<rparr>\<rparr>"
  let ?m = "minimize_metric args"
  assume bl: "batch_loop (optimiser args) v (gb (train_sample args) (batch_size args))
        (self st, ostate st, hp st, False, []) = Inr (net1, os1, h1, stop, acc)"
    and st': "st' = update_best ?m i val_loss ?st1"
  from inv obtain a where a: "W_vect (self st) = Some a"
    by (auto simp: score_inv_def)
  from batch_loop_vector [OF bl a] obtain a1 where a1: "W_vect net1 = Some a1" ..
  show ?thesis
  proof (cases "improves ?m val_loss (best_score st)")
    case True
    then have e: "st' = ?st1\<lparr>hp := h1\<lparr>cells := (cells h1)(fresh h1 := cells h1 a1),
                                    fresh := Suc (fresh h1)\<rparr>,
                          best_score := val_loss, best_inst := Some (fresh h1),
                          best_epoch := i\<rparr>"
      by (auto simp: st' update_best_def improves_def deepcopy_def alloc_def a1 split: if_splits)
    have "improves ?m val_loss (init_score ?m)"
    proof (cases "best_inst st")
      case None
      with inv have "best_score st = init_score ?m"
        by (simp add: score_inv_def)
      with True show ?thesis by simp
    next
      case (Some b)
      with inv have "improves ?m (best_score st) (init_score ?m)"
        by (simp add: score_inv_def)
      with True show ?thesis
        by (rule improves_trans)
    qed
    with a1 show ?thesis
      by (simp add: score_inv_def e)
  next
    case False
    then have e: "st' = ?st1"
      by (simp add: st' update_best_keeps)
    show ?thesis
    proof (cases "best_inst st")
      case None
      with inv False a1 show ?thesis
        by (simp add: score_inv_def e)
    next
      case (Some b)
      with inv a1 show ?thesis
        by (simp add: score_inv_def e)
    qed
  qed
qed

lemma epoch_loop_score_inv:
  "epoch_loop gb args v es st = Inr st' \<Longrightarrow> score_inv args st \<Longrightarrow> score_inv args st'"
proof (induction es arbitrary: st)
  case Nil
  then show ?case by simp
next
  case (Cons i es)
  from Cons.prems(1) obtain st1 stop where
    body: "epoch_body gb args v i st = Inr (st1, stop)" and
    rest: "stop \<and> st' = st1 \<or> \<not> stop \<and> epoch_loop gb args v es st1 = Inr st'"
    by (auto split: sum.splits if_splits)
  from epoch_body_score_inv [OF body Cons.prems(2)] have "score_inv args st1" .
  with rest Cons.IH show ?case
    by blast
qed

lemma fit_init_score_inv:
  "W_vect net = Some a0 \<Longrightarrow> score_inv args (fit_init args net os h)"
  by (simp add: score_inv_def fit_init_def init_score_def)

lemma score_inv_iff:
  assumes "score_inv args st"
  shows "best_inst st = None \<longleftrightarrow>
     (\<forall>x \<in> set (validation_loss (history st)).
        \<not> improves (minimize_metric args) x (init_score (minimize_metric args)))"
proof (cases "best_inst st")
  case None
  with assms show ?thesis
    by (simp add: score_inv_def)
next
  case (Some b)
  with assms have "best_score st \<in> set (validation_loss (history st))"
    "improves (minimize_metric args) (best_score st) (init_score (minimize_metric args))"
    by (simp_all add: score_inv_def)
  with Some show ?thesis
    by auto
qed

text \<open>
  C6, as amended. Let the network hold a parameter vector when \<^verbatim>\<open>fit\<close> is called and
  let the epoch loop end without an exception. Then \<^verbatim>\<open>best_inst\<close> is set exactly
  when the validation loss of at least one epoch strictly improved on the initial
  infinity, which every finite loss does; when none did, \<^verbatim>\<open>best_inst\<close> is still
  \<^verbatim>\<open>None\<close>. With \<^verbatim>\<open>load_best_model_on_end\<close> true, \<^verbatim>\<open>fit\<close> returns the
  network with its live vector replaced by \<^verbatim>\<open>best_inst\<close>. If moreover the optimizer
  only returns the array it was given or a new one and writes to no other array, a
  \<^verbatim>\<open>best_inst\<close> that is set is an array allocated during this call, it is not the
  live vector at the end of training, and the validation loss of its contents is
  \<^verbatim>\<open>best_score\<close>, whatever the optimizer did to the live vector since the copy was
  taken.
\<close>

theorem best_snapshot_loaded:
  assumes "W_vect net = Some a0"
    and "epoch_loop gb args (verbose_of (verbose args)) (epoch_range (epochs args))
           (fit_init args net os h) = Inr st"
  shows
    "(best_inst st = None \<longleftrightarrow>
        (\<forall>x \<in> set (validation_loss (history st)).
           \<not> improves (minimize_metric args) x (init_score (minimize_metric args)))) \<and>
     (\<forall>r. Fin r \<in> set (validation_loss (history st)) \<longrightarrow> best_inst st \<noteq> None) \<and>
     (load_best_model_on_end args \<longrightarrow>
        fit gb net os h args =
          Inr (((self st)\<lparr>W_vect := best_inst st\<rparr>, history st), ostate st, hp st)) \<and>
     (opt_frame (optimiser args) \<and> a0 < fresh h \<longrightarrow>
        (\<forall>b. best_inst st = Some b \<longrightarrow>
           fresh h \<le> b \<and> b < fresh (hp st) \<and> W_vect (self st) \<noteq> Some b \<and>
           val_of net (validation_sample args) (cells (hp st) b) = Inr (best_score st)))"
proof (intro conjI impI allI)
  from epoch_loop_score_inv [OF assms(2) fit_init_score_inv [OF assms(1)]]
  have inv: "score_inv args st" .
  from score_inv_iff [OF inv]
  show iff: "best_inst st = None \<longleftrightarrow>
        (\<forall>x \<in> set (validation_loss (history st)).
           \<not> improves (minimize_metric args) x (init_score (minimize_metric args)))" .
  show "best_inst st \<noteq> None" if "Fin r \<in> set (validation_loss (history st))" for r
    using iff that improves_Fin_init [of "minimize_metric args" r] by blast
next
  assume "load_best_model_on_end args"
  then show "fit gb net os h args =
          Inr (((self st)\<lparr>W_vect := best_inst st\<rparr>, history st), ostate st, hp st)"
    by (simp add: fit_def assms(2))
next
  fix b
  assume fr: "opt_frame (optimiser args) \<and> a0 < fresh h" and b: "best_inst st = Some b"
  from fr have frame: "opt_frame (optimiser args)" and a0: "a0 < fresh h"
    by simp_all
  from epoch_loop_inv [OF frame assms(2) fit_init_inv [OF assms(1) a0]]
  have inv: "snapshot_inv (fresh h) args st" .
  from epoch_loop_frame [OF assms(2)] obtain w where
    "self st = net\<lparr>optimiser' := Some (optimiser args), W_vect := w\<rparr>"
    by (auto simp: fit_init_def)
  then have vo: "val_of (self st) = val_of net"
    by (simp add: val_of_W_vect val_of_optimiser)
  from b inv vo show "fresh h \<le> b" "b < fresh (hp st)" "W_vect (self st) \<noteq> Some b"
    "val_of net (validation_sample args) (cells (hp st) b) = Inr (best_score st)"
    by (simp_all add: snapshot_inv_def)
qed

section \<open>Concrete runs\<close>

text \<open>
  The definitions a concrete run unfolds, and the epoch ranges and batch lists the runs
  below use.
\<close>

lemmas run_defs = fit_def epoch_range_def epochs_of_def verbose_of_def fit_init_def
  epoch_body_def update_best_def deepcopy_def alloc_def eval_ffn_def loss_def reg_term_def
  predict'_def get_def str_def deref_def mean_def gt_def Let_def
  scripted_def repeat_batches_def test_args_def test_net_def test_layer_def array_loss_def
  scalar_loss_def nan_loss_def test_heap_def tie_script_def

lemma upto_0_1: "[0..1::int] = [0, 1]"
  by (simp add: upto.simps)

lemma upto_0_2: "[0..2::int] = [0, 1, 2]"
  by (simp add: upto.simps)

text \<open>The scripted optimizer respects the assumption about arrays.\<close>

lemma scripted_frame: "opt_frame scripted"
  unfolding opt_frame_def
proof (intro allI impI)
  fix os :: "(bool \<times> real) list" and h lf and X y :: real and w v stop inst l os' h'
  assume call: "scripted os h lf X y w v = Inr ((stop, inst, l), os', h')"
    and wf: "\<forall>a. w = Some a \<longrightarrow> a < fresh h"
  show "fresh h \<le> fresh h' \<and> inst < fresh h' \<and>
          (inst < fresh h \<longrightarrow> w = Some inst) \<and>
          (\<forall>b < fresh h. w \<noteq> Some b \<longrightarrow> cells h' b = cells h b)"
  proof (cases w)
    case None
    with call show ?thesis
      by (auto simp: scripted_def alloc_def split: list.splits)
  next
    case (Some a)
    with wf have "a < fresh h" by simp
    with call Some show ?thesis
      by (auto simp: scripted_def split: list.splits)
  qed
qed

text \<open>
  C2, witness: with the validation losses 0.9, 0.5, 0.5, the snapshot taken at the first
  0.5 (epoch 1, the copy at address 2) is still the snapshot after the tie in epoch 2.
\<close>

theorem best_snapshot_strict_witness:
  "best_epoch (fst (projr (epoch_body repeat_batches test_args False 2
     (projr (epoch_loop repeat_batches test_args False [0, 1]
        (fit_init test_args test_net tie_script test_heap)))))) = 1 \<and>
   best_inst (fst (projr (epoch_body repeat_batches test_args False 2
     (projr (epoch_loop repeat_batches test_args False [0, 1]
        (fit_init test_args test_net tie_script test_heap)))))) = Some 2"
proof -
  let ?st = "projr (epoch_loop repeat_batches test_args False [0, 1]
        (fit_init test_args test_net tie_script test_heap))"
  have st: "best_score ?st = Fin (1 / 2)" "best_epoch ?st = 1" "best_inst ?st = Some 2"
    "validation_loss (history ?st) = [Fin (9 / 10), Fin (1 / 2)]"
    by (simp_all add: run_defs)
  have "\<exists>st'. epoch_body repeat_batches test_args False 2 ?st = Inr (st', False) \<and>
      validation_loss (history st') = [Fin (9 / 10), Fin (1 / 2), Fin (1 / 2)]"
    by (simp add: run_defs)
  then obtain st' stop where
    body: "epoch_body repeat_batches test_args False 2 ?st = Inr (st', stop)" and
    hist: "validation_loss (history st') = [Fin (9 / 10), Fin (1 / 2), Fin (1 / 2)]"
    by blast
  from best_snapshot_strict [of repeat_batches test_args False 2 ?st st' stop] body
  obtain val_loss where
    v: "validation_loss (history st') = validation_loss (history ?st) @ [val_loss]" and
    tie: "val_loss = best_score ?st \<longrightarrow>
            best_score st' = best_score ?st \<and> best_inst st' = best_inst ?st \<and>
            best_epoch st' = best_epoch ?st"
    by blast
  from v hist st(4) have "val_loss = Fin (1 / 2)"
    by simp
  with tie st have "best_epoch st' = 1 \<and> best_inst st' = Some 2"
    by simp
  with body show ?thesis
    by simp
qed

text \<open>
  C3, counterexample to the claim as stated: with two batches per epoch, the first batch
  of epoch 0 returns the stop flag true and the second returns false; \<^verbatim>\<open>fit\<close> goes
  on and runs epoch 1.
\<close>

theorem stop_flag_counterexample:
  "fst (fst (projr (scripted [(True, 1), (False, 2), (False, 3), (False, 4)] test_heap
     (loss test_net) 0 0 (Some 0) False))) = True \<and>
   history.epoch (snd (fst (projr
     (fit repeat_batches test_net [(True, 1), (False, 2), (False, 3), (False, 4)] test_heap
        (test_args\<lparr>batch_size := 2, epochs := Some 2\<rparr>))))) = [0, 1]"
  by (simp add: run_defs upto_0_1 replicate_2)

text \<open>
  C3, witness: the second and last batch of epoch 0 returns the stop flag true; of the
  epochs 0, 1, 2 only epoch 0 is in the history.
\<close>

theorem stop_after_last_batch_witness:
  "history.epoch (history (projr (epoch_loop repeat_batches (test_args\<lparr>batch_size := 2\<rparr>) False
     [0, 1, 2]
     (fit_init (test_args\<lparr>batch_size := 2\<rparr>) test_net
        [(False, 1), (True, 2), (False, 3), (False, 4)] test_heap)))) = [0]"
proof -
  let ?args = "test_args\<lparr>batch_size := 2\<rparr>"
  let ?st = "fit_init ?args test_net [(False, 1), (True, 2), (False, 3), (False, 4)] test_heap"
  have gb: "repeat_batches (train_sample ?args) (batch_size ?args) = [(0, 0)] @ [(0, 0)]"
    by (simp add: repeat_batches_def test_args_def replicate_2)
  have "\<exists>net os h acc inst l os' h'.
      batch_loop (optimiser ?args) False [(0, 0)] (self ?st, ostate ?st, hp ?st, False, []) =
        Inr (net, os, h, False, acc) \<and>
      optimiser ?args os h (loss net) 0 0 (W_vect net) False = Inr ((True, inst, l), os', h')"
    by (simp add: run_defs)
  then obtain net os h acc inst l os' h' where
    first: "batch_loop (optimiser ?args) False [(0, 0)]
        (self ?st, ostate ?st, hp ?st, False, []) = Inr (net, os, h, False, acc)" and
    last: "optimiser ?args os h (loss net) 0 0 (W_vect net) False =
        Inr ((True, inst, l), os', h')"
    by blast
  have "\<exists>st1. epoch_body repeat_batches ?args False 0 ?st = Inr (st1, True)"
    by (simp add: run_defs replicate_2)
  then obtain st1 where body: "epoch_body repeat_batches ?args False 0 ?st = Inr (st1, True)" ..
  from stop_after_last_batch [where gb = repeat_batches and rest = "[1, 2]",
      OF gb first last body] have
    "epoch_loop repeat_batches ?args False [0, 1, 2] ?st = Inr st1"
    "history.epoch (history st1) = history.epoch (history ?st) @ [0]"
    by simp_all
  then show ?thesis
    by (simp add: fit_init_def)
qed

text \<open>
  C4, counterexample to the claim as stated: with \<^verbatim>\<open>epochs == 0\<close> the call is not
  rejected and runs the training epoch 0.
\<close>

theorem zero_epochs_counterexample:
  "\<not> isl (fit repeat_batches test_net tie_script test_heap (test_args\<lparr>epochs := Some 0\<rparr>)) \<and>
   history.epoch (snd (fst (projr
     (fit repeat_batches test_net tie_script test_heap (test_args\<lparr>epochs := Some 0\<rparr>))))) = [0] \<and>
   train_loss (snd (fst (projr
     (fit repeat_batches test_net tie_script test_heap (test_args\<lparr>epochs := Some 0\<rparr>))))) =
     [Fin (9 / 10)]"
  by (simp add: run_defs)

theorem zero_epochs_runs_one_witness:
  "fit repeat_batches test_net tie_script test_heap (test_args\<lparr>epochs := Some 0\<rparr>) =
   fit repeat_batches test_net tie_script test_heap (test_args\<lparr>epochs := Some 1\<rparr>) \<and>
   length (validation_loss (snd (fst (projr
     (fit repeat_batches test_net tie_script test_heap (test_args\<lparr>epochs := Some 0\<rparr>)))))) = 1"
proof -
  note t = zero_epochs_runs_one [of repeat_batches test_net tie_script test_heap test_args]
  have "\<exists>r. fit repeat_batches test_net tie_script test_heap (test_args\<lparr>epochs := Some 0\<rparr>) = Inr r"
    by (simp add: run_defs)
  then obtain net' hist os' h' where
    r: "fit repeat_batches test_net tie_script test_heap (test_args\<lparr>epochs := Some 0\<rparr>) =
          Inr ((net', hist), os', h')"
    by auto
  from t r have "length (validation_loss hist) = 1"
    by blast
  with r have "length (validation_loss (snd (fst (projr
     (fit repeat_batches test_net tie_script test_heap (test_args\<lparr>epochs := Some 0\<rparr>)))))) = 1"
    by simp
  with t show ?thesis
    by blast
qed

text \<open>
  C6, counterexample to the claim as stated: the validation loss of the only epoch is NaN,
  which does not improve on the initial infinity; \<^verbatim>\<open>best_inst\<close> is still
  \<^verbatim>\<open>None\<close> after the epoch, and \<^verbatim>\<open>fit\<close> returns the network with \<^verbatim>\<open>None\<close>
  for its parameter vector.
\<close>

theorem nan_loss_counterexample:
  "history.epoch (snd (fst (projr
     (fit repeat_batches (test_net\<lparr>loss' := nan_loss\<rparr>) tie_script test_heap test_args)))) = [0] \<and>
   W_vect (fst (fst (projr
     (fit repeat_batches (test_net\<lparr>loss' := nan_loss\<rparr>) tie_script test_heap test_args)))) = None"
  by (simp add: run_defs)

text \<open>
  C6, witness: the optimizer overwrites the live array (address 0) in place; the
  validation losses are 0.9, 0.5, 0.7. The network returned holds the copy taken in epoch
  1 (address 2), whose contents are still 0.5 while the live array has become 0.7.
\<close>

theorem best_snapshot_loaded_witness:
  "W_vect (fst (fst (projr (fit repeat_batches test_net
      [(False, 9 / 10), (False, 1 / 2), (False, 7 / 10)] test_heap
      (test_args\<lparr>epochs := Some 3\<rparr>))))) = Some 2 \<and>
   cells (snd (snd (projr (fit repeat_batches test_net
      [(False, 9 / 10), (False, 1 / 2), (False, 7 / 10)] test_heap
      (test_args\<lparr>epochs := Some 3\<rparr>))))) 2 = [1 / 2] \<and>
   cells (snd (snd (projr (fit repeat_batches test_net
      [(False, 9 / 10), (False, 1 / 2), (False, 7 / 10)] test_heap
      (test_args\<lparr>epochs := Some 3\<rparr>))))) 0 = [7 / 10]"
proof -
  let ?args = "test_args\<lparr>epochs := Some 3\<rparr>"
  let ?script = "[(False, 9 / 10), (False, 1 / 2), (False, 7 / 10 :: real)]"
  have frame: "opt_frame (optimiser ?args)"
    by (simp add: test_args_def scripted_frame)
  have w: "W_vect test_net = Some 0" "0 < fresh test_heap"
    by (simp_all add: test_net_def test_heap_def)
  have "\<exists>st. epoch_loop repeat_batches ?args (verbose_of (verbose ?args))
        (epoch_range (epochs ?args)) (fit_init ?args test_net ?script test_heap) = Inr st \<and>
      Fin (1 / 2) \<in> set (validation_loss (history st)) \<and> best_inst st = Some 2 \<and>
      cells (hp st) 2 = [1 / 2] \<and> cells (hp st) 0 = [7 / 10]"
    by (simp add: run_defs upto_0_2)
  then obtain st where
    run: "epoch_loop repeat_batches ?args (verbose_of (verbose ?args))
        (epoch_range (epochs ?args)) (fit_init ?args test_net ?script test_heap) = Inr st" and
    mem: "Fin (1 / 2) \<in> set (validation_loss (history st))" and
    st: "best_inst st = Some 2" "cells (hp st) 2 = [1 / 2]" "cells (hp st) 0 = [7 / 10]"
    by blast
  have lb: "load_best_model_on_end ?args"
    by (simp add: test_args_def)
  note t = best_snapshot_loaded [where gb = repeat_batches and os = ?script, OF w(1) run]
  from t mem have "best_inst st \<noteq> None"
    by blast
  from t frame w(2) st(1) have
    "val_of test_net (validation_sample ?args) (cells (hp st) 2) = Inr (best_score st)"
    by blast
  from t lb have
    "fit repeat_batches test_net ?script test_heap ?args =
       Inr (((self st)\<lparr>W_vect := best_inst st\<rparr>, history st), ostate st, hp st)"
    by blast
  with st show ?thesis
    by simp
qed

text \<open>
  C8, counterexample to the claim as stated: with a loss function that returns a bare
  scalar, the first epoch's validation raises and \<^verbatim>\<open>fit\<close> ends with the error.
\<close>

theorem scalar_loss_counterexample:
  "fit repeat_batches (test_net\<lparr>loss' := scalar_loss\<rparr>) tie_script test_heap test_args =
     Inl ScalarIndexError"
  by (simp add: run_defs)

theorem array_loss_validates_witness:
  "validation_loss (history (fst (projr (epoch_body repeat_batches test_args False 0
     (fit_init test_args test_net [(False, 1 / 2)] test_heap))))) = [Fin (1 / 2)]"
proof -
  let ?st = "fit_init test_args test_net [(False, 1 / 2)] test_heap"
  have "\<exists>net os h acc.
      batch_loop (optimiser test_args) False
        (repeat_batches (train_sample test_args) (batch_size test_args))
        (self ?st, ostate ?st, hp ?st, False, []) = Inr (net, os, h, False, acc) \<and>
      predict' net (deref h (W_vect net)) (fst (validation_sample test_args)) = Inr (1 / 2)"
    by (simp add: run_defs)
  then obtain net os h acc where
    bl: "batch_loop (optimiser test_args) False
        (repeat_batches (train_sample test_args) (batch_size test_args))
        (self ?st, ostate ?st, hp ?st, False, []) = Inr (net, os, h, False, acc)" and
    p: "predict' net (deref h (W_vect net)) (fst (validation_sample test_args)) = Inr (1 / 2)"
    by blast
  have l: "loss' (self ?st) (1 / 2) (snd (validation_sample test_args)) = Array [Fin (1 / 2)]"
    by (simp add: run_defs)
  from array_loss_validates [where gb = repeat_batches and x = "Fin (1 / 2)" and xs = "[]"
      and i = 0, OF bl p] l obtain st' where
    "epoch_body repeat_batches test_args False 0 ?st = Inr (st', False)"
    "validation_loss (history st') = validation_loss (history ?st) @ [Fin (1 / 2)]"
    by blast
  then show ?thesis
    by (simp add: fit_init_def)
qed

text \<open>
  C9, counterexample to the claim as stated: the network has no \<^verbatim>\<open>_optimiser\<close>
  before \<^verbatim>\<open>fit\<close> and has the optimizer passed in after it.
\<close>

theorem fit_frame_counterexample:
  "optimiser' test_net = None \<and>
   optimiser' (fst (fst (projr (fit repeat_batches test_net tie_script test_heap test_args)))) =
     Some scripted"
  by (simp add: run_defs)

theorem fit_frame_witness:
  "parser (fst (fst (projr (fit repeat_batches test_net tie_script test_heap test_args)))) =
     parser test_net \<and>
   layer_specs (fst (fst (projr (fit repeat_batches test_net tie_script test_heap test_args)))) =
     layer_specs test_net \<and>
   regularization (fst (fst (projr (fit repeat_batches test_net tie_script test_heap test_args)))) =
     regularization test_net"
proof -
  have "\<exists>r. fit repeat_batches test_net tie_script test_heap test_args = Inr r"
    by (simp add: run_defs)
  then obtain net' hist os' h' where
    r: "fit repeat_batches test_net tie_script test_heap test_args = Inr ((net', hist), os', h')"
    by auto
  from fit_frame [OF r] have "parser net' = parser test_net \<and>
      layer_specs net' = layer_specs test_net \<and> regularization net' = regularization test_net"
    by blast
  with r show ?thesis
    by simp
qed

end
